theory Spec2Isabelle
  imports Complex_Main "HOL-Library.Char_ord" "HOL-Library.List_Lexorder"
    "HOL-Library.Multiset"
begin

section \<open>Data model: the four tables\<close>

text \<open>
  The SQL schema is not part of the sources; the tables are read off the queries of
  the service. A table is the list of its rows (order and duplicates kept, since the
  service reads \<^verbatim>\<open>recordset[0]\<close>). Key columns are integers and the reference number is
  a string; every other column is nullable (\<open>None\<close> is SQL NULL). The fields carry the
  table aliases of the queries (\<^verbatim>\<open>p\<close>, \<^verbatim>\<open>d\<close>, \<^verbatim>\<open>m\<close>, \<^verbatim>\<open>pr\<close>). Strings are compared
  byte by byte (a binary collation).
\<close>

record patient_row =
  p_id :: int
  p_name :: "string option"
  p_age :: "int option"
  p_gender :: "string option"
  p_contact :: "string option"

record doctor_row =
  d_id :: int
  d_name :: "string option"

record medicine_row =
  m_id :: int
  m_name :: "string option"
  m_description :: "string option"

record reference_row =
  pr_reference_number :: string
  pr_patient_id :: int
  pr_doctor_id :: int
  pr_medicine_id :: int

record database =
  patient :: "patient_row list"
  doctor :: "doctor_row list"
  medicine :: "medicine_row list"
  prescription_reference :: "reference_row list"

section \<open>Replies, database steps and faults\<close>

text \<open>
  A handler answers through \<^verbatim>\<open>callback(err)\<close> with a gRPC status code or through
  \<^verbatim>\<open>callback(null, response)\<close>: the reply is a sum, \<open>Inl\<close> the status.
\<close>

datatype status = NOT_FOUND | INTERNAL

text \<open>
  Every \<^verbatim>\<open>await\<close> on the database is a step. A step may raise (a connection or query
  failure): the fault assignment \<open>F\<close> says which call sites raise when reached. Each
  site is reached at most once in a call, so this covers every failure scenario.
  \<open>RollbackNotFound\<close> is the \<^verbatim>\<open>transaction.rollback()\<close> of the not-found branch,
  \<open>RollbackOnError\<close> the one of the \<^verbatim>\<open>catch\<close> block.
\<close>

datatype step =
  Connect | Begin | Lookup | RollbackNotFound
  | UpdatePatient | UpdateDoctor | UpdateMedicine
  | Commit | RollbackOnError
  | Query | CountQuery | PageQuery

type_synonym faults = "step \<Rightarrow> bool"

text \<open>
  What a call leaves behind: its reply, the committed database and the steps it
  issued, in order.
\<close>

record 'a outcome =
  reply :: "status + 'a"
  db_after :: database
  trace :: "step list"

section \<open>UpdatePatientDetails\<close>

record update_request =
  reference_number :: string
  name :: "string option"
  age :: "int option"
  gender :: "string option"
  contact :: "string option"
  doctor_name :: "string option"
  medicine_name :: "string option"
  description :: "string option"

record update_response =
  success :: bool

text \<open>
  JavaScript truthiness of an optional request field: \<^verbatim>\<open>undefined\<close>, the empty string
  and the number 0 are falsy. \<open>or_null\<close> is \<^verbatim>\<open>x || null\<close>.
\<close>

definition truthy_str :: "string option \<Rightarrow> bool" where
  "truthy_str x = (case x of None \<Rightarrow> False | Some s \<Rightarrow> s \<noteq> [])"

definition truthy_int :: "int option \<Rightarrow> bool" where
  "truthy_int x = (case x of None \<Rightarrow> False | Some n \<Rightarrow> n \<noteq> 0)"

definition or_null_str :: "string option \<Rightarrow> string option" where
  "or_null_str x = (if truthy_str x then x else None)"

definition or_null_int :: "int option \<Rightarrow> int option" where
  "or_null_int x = (if truthy_int x then x else None)"

text \<open>SQL \<^verbatim>\<open>COALESCE(@param, column)\<close>.\<close>

definition COALESCE :: "'a option \<Rightarrow> 'a option \<Rightarrow> 'a option" where
  "COALESCE param col = (case param of None \<Rightarrow> col | Some v \<Rightarrow> Some v)"

text \<open>The statements of the transaction, as functions on the database.\<close>

definition select_ids :: "string \<Rightarrow> database \<Rightarrow> reference_row list" where
  "select_ids ref db =
     filter (\<lambda>pr. pr_reference_number pr = ref) (prescription_reference db)"

definition update_patient ::
  "int \<Rightarrow> string option \<Rightarrow> int option \<Rightarrow> string option \<Rightarrow> string option
    \<Rightarrow> database \<Rightarrow> database" where
  "update_patient pid n a g c db =
     db\<lparr>patient :=
       map (\<lambda>p. if p_id p = pid
                then p\<lparr>p_name := COALESCE n (p_name p),
                       p_age := COALESCE a (p_age p),
                       p_gender := COALESCE g (p_gender p),
                       p_contact := COALESCE c (p_contact p)\<rparr>
                else p) (patient db)\<rparr>"

definition update_doctor :: "int \<Rightarrow> string option \<Rightarrow> database \<Rightarrow> database" where
  "update_doctor did n db =
     db\<lparr>doctor := map (\<lambda>d. if d_id d = did then d\<lparr>d_name := n\<rparr> else d) (doctor db)\<rparr>"

definition update_medicine ::
  "int \<Rightarrow> string option \<Rightarrow> string option \<Rightarrow> database \<Rightarrow> database" where
  "update_medicine mid n ds db =
     db\<lparr>medicine :=
       map (\<lambda>m. if m_id m = mid
                then m\<lparr>m_name := COALESCE n (m_name m),
                       m_description := COALESCE ds (m_description m)\<rparr>
                else m) (medicine db)\<rparr>"

definition update_medicine_name :: "int \<Rightarrow> string option \<Rightarrow> database \<Rightarrow> database" where
  "update_medicine_name mid n db =
     db\<lparr>medicine :=
       map (\<lambda>m. if m_id m = mid then m\<lparr>m_name := COALESCE n (m_name m)\<rparr> else m)
         (medicine db)\<rparr>"

text \<open>
  Inside the transaction the handler works on the transaction's view of the database
  and the steps issued so far. A statement that raises leaves the \<^verbatim>\<open>try\<close> block with
  the trace (\<open>Inl\<close>); the statements after it are not reached.
\<close>

type_synonym tx = "database \<times> step list"

definition exec :: "faults \<Rightarrow> step \<Rightarrow> (database \<Rightarrow> database) \<Rightarrow> tx \<Rightarrow> step list + tx" where
  "exec F s stmt t =
     (case t of (view, tr) \<Rightarrow>
        if F s then Inl (tr @ [s]) else Inr (stmt view, tr @ [s]))"

definition and_then :: "step list + tx \<Rightarrow> (tx \<Rightarrow> step list + tx) \<Rightarrow> step list + tx" where
  "and_then r k = (case r of Inl tr \<Rightarrow> Inl tr | Inr t \<Rightarrow> k t)"

text \<open>
  The \<^verbatim>\<open>catch\<close> block of the transaction: roll back, rethrow; the outer \<^verbatim>\<open>catch\<close> answers
  INTERNAL. Nothing was committed, whether or not this rollback raises in turn.
\<close>

definition on_error :: "database \<Rightarrow> step list \<Rightarrow> update_response outcome" where
  "on_error db tr =
     \<lparr>reply = Inl INTERNAL, db_after = db, trace = tr @ [RollbackOnError]\<rparr>"

text \<open>The three conditional UPDATE statements of \<^verbatim>\<open>src/unnamed/part_000\<close> and \<^verbatim>\<open>part_001\<close>.\<close>

definition conditional_updates ::
  "faults \<Rightarrow> update_request \<Rightarrow> reference_row \<Rightarrow> tx \<Rightarrow> step list + tx" where
  "conditional_updates F req ids t =
     and_then
       (and_then
          (if truthy_str (name req) \<or> truthy_int (age req)
              \<or> truthy_str (gender req) \<or> truthy_str (contact req)
           then exec F UpdatePatient
                  (update_patient (pr_patient_id ids) (or_null_str (name req))
                     (or_null_int (age req)) (or_null_str (gender req))
                     (or_null_str (contact req))) t
           else Inr t)
          (\<lambda>t. if truthy_str (doctor_name req)
                then exec F UpdateDoctor
                       (update_doctor (pr_doctor_id ids) (doctor_name req)) t
                else Inr t))
       (\<lambda>t. if truthy_str (medicine_name req) \<or> truthy_str (description req)
             then exec F UpdateMedicine
                    (update_medicine (pr_medicine_id ids)
                       (or_null_str (medicine_name req))
                       (or_null_str (description req))) t
             else Inr t)"

text \<open>
  The same in \<^verbatim>\<open>src/grpc/server.js\<close>, which does not read \<^verbatim>\<open>description\<close> from the
  request and has no description column in its medicine UPDATE.
\<close>

definition conditional_updates_grpc ::
  "faults \<Rightarrow> update_request \<Rightarrow> reference_row \<Rightarrow> tx \<Rightarrow> step list + tx" where
  "conditional_updates_grpc F req ids t =
     and_then
       (and_then
          (if truthy_str (name req) \<or> truthy_int (age req)
              \<or> truthy_str (gender req) \<or> truthy_str (contact req)
           then exec F UpdatePatient
                  (update_patient (pr_patient_id ids) (or_null_str (name req))
                     (or_null_int (age req)) (or_null_str (gender req))
                     (or_null_str (contact req))) t
           else Inr t)
          (\<lambda>t. if truthy_str (doctor_name req)
                then exec F UpdateDoctor
                       (update_doctor (pr_doctor_id ids) (doctor_name req)) t
                else Inr t))
       (\<lambda>t. if truthy_str (medicine_name req)
             then exec F UpdateMedicine
                    (update_medicine_name (pr_medicine_id ids)
                       (or_null_str (medicine_name req))) t
             else Inr t)"

text \<open>
  The handler, over the UPDATE block \<open>updates\<close> of the revision: connect, BEGIN, look
  the ids up, roll back and answer NOT_FOUND when there is no row, else run the
  updates on the first row's ids and COMMIT. A failed COMMIT commits nothing.
\<close>

definition update_transaction ::
  "(faults \<Rightarrow> update_request \<Rightarrow> reference_row \<Rightarrow> tx \<Rightarrow> step list + tx)
    \<Rightarrow> faults \<Rightarrow> update_request \<Rightarrow> database \<Rightarrow> update_response outcome" where
  "update_transaction updates F req db =
     (if F Connect then \<lparr>reply = Inl INTERNAL, db_after = db, trace = [Connect]\<rparr>
      else if F Begin then
        \<lparr>reply = Inl INTERNAL, db_after = db, trace = [Connect, Begin]\<rparr>
      else if F Lookup then on_error db [Connect, Begin, Lookup]
      else
        (case select_ids (reference_number req) db of
           [] \<Rightarrow>
             if F RollbackNotFound
             then on_error db [Connect, Begin, Lookup, RollbackNotFound]
             else \<lparr>reply = Inl NOT_FOUND, db_after = db,
                   trace = [Connect, Begin, Lookup, RollbackNotFound]\<rparr>
         | ids # _ \<Rightarrow>
             (case updates F req ids (db, [Connect, Begin, Lookup]) of
                Inl tr \<Rightarrow> on_error db tr
              | Inr (view, tr) \<Rightarrow>
                  if F Commit then on_error db (tr @ [Commit])
                  else \<lparr>reply = Inr \<lparr>success = True\<rparr>, db_after = view,
                        trace = tr @ [Commit]\<rparr>)))"

definition UpdatePatientDetails ::
  "faults \<Rightarrow> update_request \<Rightarrow> database \<Rightarrow> update_response outcome" where
  "UpdatePatientDetails = update_transaction conditional_updates"

definition UpdatePatientDetails_grpc ::
  "faults \<Rightarrow> update_request \<Rightarrow> database \<Rightarrow> update_response outcome" where
  "UpdatePatientDetails_grpc = update_transaction conditional_updates_grpc"

section \<open>The read-only handlers\<close>

text \<open>
  The join of the four tables, one row per matching combination, in scan order. It is
  the \<^verbatim>\<open>FROM ... JOIN ...\<close> clause shared by GetPrescription and GetAllPatients.
\<close>

record joined_row =
  j_reference_number :: string
  j_name :: "string option"
  j_age :: "int option"
  j_gender :: "string option"
  j_contact :: "string option"
  j_doctor_name :: "string option"
  j_medicine_name :: "string option"
  j_description :: "string option"

definition join_tables :: "database \<Rightarrow> joined_row list" where
  "join_tables db =
     [\<lparr>j_reference_number = pr_reference_number pr,
       j_name = p_name p, j_age = p_age p, j_gender = p_gender p,
       j_contact = p_contact p, j_doctor_name = d_name d,
       j_medicine_name = m_name m, j_description = m_description m\<rparr>.
      pr \<leftarrow> prescription_reference db,
      p \<leftarrow> patient db, p_id p = pr_patient_id pr,
      d \<leftarrow> doctor db, d_id d = pr_doctor_id pr,
      m \<leftarrow> medicine db, m_id m = pr_medicine_id pr]"

text \<open>
  A handler that only reads: connect, run one query, answer NOT_FOUND on an empty
  recordset and else build the response from the recordset. Either step raising is
  caught and answered INTERNAL.
\<close>

definition query_handler ::
  "faults \<Rightarrow> database \<Rightarrow> 'row list \<Rightarrow> ('row list \<Rightarrow> 'a) \<Rightarrow> 'a outcome" where
  "query_handler F db recordset respond =
     (if F Connect then \<lparr>reply = Inl INTERNAL, db_after = db, trace = [Connect]\<rparr>
      else if F Query then
        \<lparr>reply = Inl INTERNAL, db_after = db, trace = [Connect, Query]\<rparr>
      else if length recordset = 0 then
        \<lparr>reply = Inl NOT_FOUND, db_after = db, trace = [Connect, Query]\<rparr>
      else \<lparr>reply = Inr (respond recordset), db_after = db, trace = [Connect, Query]\<rparr>)"

definition prescription_rows :: "string \<Rightarrow> database \<Rightarrow> joined_row list" where
  "prescription_rows ref_no db =
     filter (\<lambda>row. j_reference_number row = ref_no) (join_tables db)"

definition GetPrescription :: "faults \<Rightarrow> string \<Rightarrow> database \<Rightarrow> joined_row outcome" where
  "GetPrescription F ref_no db = query_handler F db (prescription_rows ref_no db) hd"

record patient_details =
  pt_name :: "string option"
  pt_age :: "int option"
  pt_gender :: "string option"
  pt_contact :: "string option"

definition patient_rows :: "string \<Rightarrow> database \<Rightarrow> patient_row list" where
  "patient_rows patientName db =
     filter (\<lambda>p. p_name p = Some patientName) (patient db)"

definition GetPatient :: "faults \<Rightarrow> string \<Rightarrow> database \<Rightarrow> patient_details outcome" where
  "GetPatient F patientName db =
     query_handler F db (patient_rows patientName db)
       (\<lambda>rs. \<lparr>pt_name = p_name (hd rs), pt_age = p_age (hd rs),
               pt_gender = p_gender (hd rs), pt_contact = p_contact (hd rs)\<rparr>)"

text \<open>
  GetReference embeds the request's \<^verbatim>\<open>ref_no\<close> in a LIKE pattern, so wildcard characters
  in it act as wildcards. The engine's LIKE predicate (pattern first, value second) is
  a parameter of the model.
\<close>

definition reference_rows ::
  "(string \<Rightarrow> string \<Rightarrow> bool) \<Rightarrow> string \<Rightarrow> database \<Rightarrow> reference_row list" where
  "reference_rows like ref_no db =
     filter (\<lambda>pr. like (''%'' @ ref_no @ ''%'') (pr_reference_number pr))
       (prescription_reference db)"

definition GetReference ::
  "(string \<Rightarrow> string \<Rightarrow> bool) \<Rightarrow> faults \<Rightarrow> string \<Rightarrow> database \<Rightarrow> string list outcome" where
  "GetReference like F ref_no db =
     query_handler F db (reference_rows like ref_no db) (map pr_reference_number)"

text \<open>LIKE for patterns whose only wildcards are \<^verbatim>\<open>%\<close> and \<^verbatim>\<open>_\<close>, to run the model on examples.\<close>

fun like_wildcards :: "string \<Rightarrow> string \<Rightarrow> bool" where
  "like_wildcards [] s = (s = [])"
| "like_wildcards (c # p) [] = (c = CHR ''%'' \<and> like_wildcards p [])"
| "like_wildcards (c # p) (x # s) =
     (if c = CHR ''%'' then like_wildcards p (x # s) \<or> like_wildcards (c # p) s
      else (c = CHR ''_'' \<or> c = x) \<and> like_wildcards p s)"

subsection \<open>GetAllPatients\<close>

record page_request =
  page :: "int option"
  pageSize :: "int option"

record patient_with_details =
  details :: joined_row
  totalCount :: int
  totalPages :: int

record page_response =
  patients :: "patient_with_details list"
  response_totalPages :: int

text \<open>\<^verbatim>\<open>x || dflt\<close> on an optional number: a missing field and 0 both give the default.\<close>

definition or_default :: "int option \<Rightarrow> int \<Rightarrow> int" where
  "or_default x dflt =
     (case x of None \<Rightarrow> dflt | Some n \<Rightarrow> if n = 0 then dflt else n)"

text \<open>
  \<^verbatim>\<open>Math.ceil(totalCount / pageSize)\<close>. Both operands are 32-bit integers, for which the
  double-precision quotient rounds to the ceiling of the exact one.
\<close>

definition total_pages :: "int \<Rightarrow> int \<Rightarrow> int" where
  "total_pages cnt sz = \<lceil>real_of_int cnt / real_of_int sz\<rceil>"

text \<open>
  The page query binds \<^verbatim>\<open>@offset\<close> and \<^verbatim>\<open>@pageSize\<close> as \<^verbatim>\<open>sql.Int\<close>. The driver rejects a value
  outside 32 bits, and the engine rejects a negative OFFSET and a FETCH NEXT below 1;
  either way the query raises.
\<close>

definition int32 :: "int \<Rightarrow> bool" where
  "int32 n = (- 2147483648 \<le> n \<and> n \<le> 2147483647)"

definition page_query_rejected :: "int \<Rightarrow> int \<Rightarrow> bool" where
  "page_query_rejected offset sz =
     (\<not> int32 offset \<or> \<not> int32 sz \<or> offset < 0 \<or> sz < 1)"

definition ordered_join :: "database \<Rightarrow> joined_row list" where
  "ordered_join db = sort_key j_reference_number (join_tables db)"

definition page_rows :: "int \<Rightarrow> int \<Rightarrow> database \<Rightarrow> joined_row list" where
  "page_rows offset sz db = take (nat sz) (drop (nat offset) (ordered_join db))"

definition GetAllPatients ::
  "faults \<Rightarrow> page_request \<Rightarrow> database \<Rightarrow> page_response outcome" where
  "GetAllPatients F req db =
     (let page = or_default (page req) 1;
          pageSize = or_default (pageSize req) 10;
          offset = (page - 1) * pageSize
      in if F Connect then \<lparr>reply = Inl INTERNAL, db_after = db, trace = [Connect]\<rparr>
         else if F CountQuery then
           \<lparr>reply = Inl INTERNAL, db_after = db, trace = [Connect, CountQuery]\<rparr>
         else
           (let totalCount = int (length (prescription_reference db));
                totalPages = total_pages totalCount pageSize
            in if F PageQuery \<or> page_query_rejected offset pageSize then
                 \<lparr>reply = Inl INTERNAL, db_after = db,
                  trace = [Connect, CountQuery, PageQuery]\<rparr>
               else
                 \<lparr>reply = Inr
                    \<lparr>patients =
                       map (\<lambda>row. \<lparr>details = row, totalCount = totalCount,
                                    totalPages = totalPages\<rparr>)
                         (page_rows offset pageSize db),
                     response_totalPages = totalPages\<rparr>,
                  db_after = db, trace = [Connect, CountQuery, PageQuery]\<rparr>))"

section \<open>The service as a whole\<close>

datatype operation =
  OpGetPatient string
  | OpGetAllPatients page_request
  | OpGetPrescription string
  | OpGetReference string
  | OpUpdatePatientDetails update_request
  | OpUpdatePatientDetails_grpc update_request

fun state_after ::
  "(string \<Rightarrow> string \<Rightarrow> bool) \<Rightarrow> faults \<Rightarrow> operation \<Rightarrow> database \<Rightarrow> database" where
  "state_after like F (OpGetPatient n) db = db_after (GetPatient F n db)"
| "state_after like F (OpGetAllPatients req) db = db_after (GetAllPatients F req db)"
| "state_after like F (OpGetPrescription r) db = db_after (GetPrescription F r db)"
| "state_after like F (OpGetReference r) db = db_after (GetReference like F r db)"
| "state_after like F (OpUpdatePatientDetails req) db =
     db_after (UpdatePatientDetails F req db)"
| "state_after like F (OpUpdatePatientDetails_grpc req) db =
     db_after (UpdatePatientDetails_grpc F req db)"

text \<open>A run of the service: operations one after the other, each with its own faults.\<close>

fun states_after ::
  "(string \<Rightarrow> string \<Rightarrow> bool) \<Rightarrow> (faults \<times> operation) list \<Rightarrow> database \<Rightarrow> database" where
  "states_after like [] db = db"
| "states_after like ((F, op) # ops) db = states_after like ops (state_after like F op db)"

text \<open>
  Referential integrity: every reference row points at exactly one patient row, one
  doctor row and one medicine row.
\<close>

definition referential_integrity :: "database \<Rightarrow> bool" where
  "referential_integrity db =
     list_all
       (\<lambda>pr. count_list (map p_id (patient db)) (pr_patient_id pr) = 1
            \<and> count_list (map d_id (doctor db)) (pr_doctor_id pr) = 1
            \<and> count_list (map m_id (medicine db)) (pr_medicine_id pr) = 1)
       (prescription_reference db)"

section \<open>The front API resolvers\<close>

text \<open>
  A resolver returns a promise, settled by the callback of one remote call. The remote
  service is a parameter: it maps the request to the callback's \<^verbatim>\<open>err\<close> (\<open>Inl\<close>) or
  \<^verbatim>\<open>response\<close>. The calls made are logged in order. The resolvers read and write nothing
  else: the imported LRU cache is never instantiated.
\<close>

datatype ('e, 'a) promise = Resolved 'a | Rejected 'e

datatype rpc =
  GetPatient_rpc string
  | GetAllPatients_rpc page_request
  | GetPrescription_rpc string
  | GetReference_rpc string
  | UpdatePatientDetails_rpc update_request

definition getPatient ::
  "(string \<Rightarrow> 'e + 'r) \<Rightarrow> string \<Rightarrow> rpc list \<Rightarrow> ('e, 'r) promise \<times> rpc list" where
  "getPatient remote nm calls =
     (case remote nm of Inl err \<Rightarrow> Rejected err | Inr response \<Rightarrow> Resolved response,
      calls @ [GetPatient_rpc nm])"

text \<open>
  The GetAllPatients response carries its \<^verbatim>\<open>patients\<close> field or lacks it (\<open>None\<close>):
  \<^verbatim>\<open>response.patients || []\<close>.
\<close>

definition getAllPatients ::
  "(page_request \<Rightarrow> 'e + 'p list option) \<Rightarrow> page_request \<Rightarrow> rpc list
    \<Rightarrow> ('e, 'p list) promise \<times> rpc list" where
  "getAllPatients remote args calls =
     (case remote args of
        Inl err \<Rightarrow> Rejected err
      | Inr response_patients \<Rightarrow>
          Resolved (case response_patients of None \<Rightarrow> [] | Some ps \<Rightarrow> ps),
      calls @ [GetAllPatients_rpc args])"

definition getPrescription ::
  "(string \<Rightarrow> 'e + 'r) \<Rightarrow> string \<Rightarrow> rpc list \<Rightarrow> ('e, 'r) promise \<times> rpc list" where
  "getPrescription remote ref_no calls =
     (case remote ref_no of Inl err \<Rightarrow> Rejected err | Inr response \<Rightarrow> Resolved response,
      calls @ [GetPrescription_rpc ref_no])"

definition getReference ::
  "(string \<Rightarrow> 'e + 'r) \<Rightarrow> string \<Rightarrow> rpc list \<Rightarrow> ('e, 'r) promise \<times> rpc list" where
  "getReference remote ref_no calls =
     (case remote ref_no of Inl err \<Rightarrow> Rejected err | Inr response \<Rightarrow> Resolved response,
      calls @ [GetReference_rpc ref_no])"

definition updatePatientDetails ::
  "(update_request \<Rightarrow> 'e + update_response) \<Rightarrow> update_request \<Rightarrow> rpc list
    \<Rightarrow> ('e, bool) promise \<times> rpc list" where
  "updatePatientDetails remote args calls =
     (case remote args of
        Inl err \<Rightarrow> Rejected err
      | Inr response \<Rightarrow> Resolved (success response),
      calls @ [UpdatePatientDetails_rpc args])"

section \<open>Notions used to state the properties\<close>

text \<open>
  The database with every UPDATE the request calls for applied to the rows of \<open>ids\<close>,
  and the UPDATE steps the request calls for, in program order.
\<close>

definition apply_updates :: "update_request \<Rightarrow> reference_row \<Rightarrow> database \<Rightarrow> database" where
  "apply_updates req ids db =
     (let db1 = (if truthy_str (name req) \<or> truthy_int (age req)
                    \<or> truthy_str (gender req) \<or> truthy_str (contact req)
                 then update_patient (pr_patient_id ids) (or_null_str (name req))
                        (or_null_int (age req)) (or_null_str (gender req))
                        (or_null_str (contact req)) db
                 else db);
          db2 = (if truthy_str (doctor_name req)
                 then update_doctor (pr_doctor_id ids) (doctor_name req) db1 else db1)
      in if truthy_str (medicine_name req) \<or> truthy_str (description req)
         then update_medicine (pr_medicine_id ids) (or_null_str (medicine_name req))
                (or_null_str (description req)) db2
         else db2)"

definition planned_updates :: "update_request \<Rightarrow> step list" where
  "planned_updates req =
     (if truthy_str (name req) \<or> truthy_int (age req)
         \<or> truthy_str (gender req) \<or> truthy_str (contact req)
      then [UpdatePatient] else [])
     @ (if truthy_str (doctor_name req) then [UpdateDoctor] else [])
     @ (if truthy_str (medicine_name req) \<or> truthy_str (description req)
        then [UpdateMedicine] else [])"

text \<open>The request with every falsy field taken out, as \<^verbatim>\<open>x || null\<close> reads it.\<close>

definition truthy_fields :: "update_request \<Rightarrow> update_request" where
  "truthy_fields req =
     req\<lparr>name := or_null_str (name req), age := or_null_int (age req),
         gender := or_null_str (gender req), contact := or_null_str (contact req),
         doctor_name := or_null_str (doctor_name req),
         medicine_name := or_null_str (medicine_name req),
         description := or_null_str (description req)\<rparr>"

text \<open>
  The update as the specification words it: a supplied field replaces the stored value
  of its column, a missing field leaves it unchanged. The rows concerned are those the
  ids of the matched reference row select; every other row and the reference table
  stay as they are.
\<close>

definition field_as_specified :: "'a option \<Rightarrow> 'a option \<Rightarrow> 'a option \<Rightarrow> bool" where
  "field_as_specified input stored stored' =
     (case input of Some v \<Rightarrow> stored' = Some v | None \<Rightarrow> stored' = stored)"

definition updated_as_specified ::
  "update_request \<Rightarrow> reference_row \<Rightarrow> database \<Rightarrow> database \<Rightarrow> bool" where
  "updated_as_specified req ids db db' =
     (list_all2
        (\<lambda>p p'. if p_id p = pr_patient_id ids
                 then p_id p' = p_id p
                    \<and> field_as_specified (name req) (p_name p) (p_name p')
                    \<and> field_as_specified (age req) (p_age p) (p_age p')
                    \<and> field_as_specified (gender req) (p_gender p) (p_gender p')
                    \<and> field_as_specified (contact req) (p_contact p) (p_contact p')
                 else p' = p)
        (patient db) (patient db')
      \<and> list_all2
        (\<lambda>d d'. if d_id d = pr_doctor_id ids
                 then d_id d' = d_id d
                    \<and> field_as_specified (doctor_name req) (d_name d) (d_name d')
                 else d' = d)
        (doctor db) (doctor db')
      \<and> list_all2
        (\<lambda>m m'. if m_id m = pr_medicine_id ids
                 then m_id m' = m_id m
                    \<and> field_as_specified (medicine_name req) (m_name m) (m_name m')
                    \<and> field_as_specified (description req) (m_description m)
                        (m_description m')
                 else m' = m)
        (medicine db) (medicine db')
      \<and> prescription_reference db' = prescription_reference db)"

text \<open>
  A column whose request field is falsy holds the same values after the call, row by
  row; and no column ever receives a falsy value it did not hold before.
\<close>

definition falsy_columns_kept :: "update_request \<Rightarrow> database \<Rightarrow> database \<Rightarrow> bool" where
  "falsy_columns_kept req db db' =
     ((truthy_str (name req) \<or> map p_name (patient db') = map p_name (patient db))
      \<and> (truthy_int (age req) \<or> map p_age (patient db') = map p_age (patient db))
      \<and> (truthy_str (gender req)
          \<or> map p_gender (patient db') = map p_gender (patient db))
      \<and> (truthy_str (contact req)
          \<or> map p_contact (patient db') = map p_contact (patient db))
      \<and> (truthy_str (doctor_name req) \<or> map d_name (doctor db') = map d_name (doctor db))
      \<and> (truthy_str (medicine_name req)
          \<or> map m_name (medicine db') = map m_name (medicine db))
      \<and> (truthy_str (description req)
          \<or> map m_description (medicine db') = map m_description (medicine db)))"

definition kept_or_truthy_str :: "string option \<Rightarrow> string option \<Rightarrow> bool" where
  "kept_or_truthy_str stored stored' = (stored' = stored \<or> truthy_str stored')"

definition kept_or_truthy_int :: "int option \<Rightarrow> int option \<Rightarrow> bool" where
  "kept_or_truthy_int stored stored' = (stored' = stored \<or> truthy_int stored')"

definition no_falsy_written :: "database \<Rightarrow> database \<Rightarrow> bool" where
  "no_falsy_written db db' =
     (list_all2
        (\<lambda>p p'. kept_or_truthy_str (p_name p) (p_name p')
               \<and> kept_or_truthy_int (p_age p) (p_age p')
               \<and> kept_or_truthy_str (p_gender p) (p_gender p')
               \<and> kept_or_truthy_str (p_contact p) (p_contact p'))
        (patient db) (patient db')
      \<and> list_all2 (\<lambda>d d'. kept_or_truthy_str (d_name d) (d_name d'))
          (doctor db) (doctor db')
      \<and> list_all2
          (\<lambda>m m'. kept_or_truthy_str (m_name m) (m_name m')
                 \<and> kept_or_truthy_str (m_description m) (m_description m'))
          (medicine db) (medicine db'))"

text \<open>
  The frame of an update: with no matched reference row nothing changes; otherwise a
  row keeps its id, and changes at most when its id is the one the first matched
  reference row carries. \<open>changed_rows\<close> counts the rows of a table that differ.
\<close>

definition only_referenced_rows_change ::
  "reference_row list \<Rightarrow> database \<Rightarrow> database \<Rightarrow> bool" where
  "only_referenced_rows_change matched db db' =
     (case matched of
        [] \<Rightarrow> db' = db
      | ids # _ \<Rightarrow>
          list_all2 (\<lambda>p p'. p_id p' = p_id p \<and> (p_id p = pr_patient_id ids \<or> p' = p))
            (patient db) (patient db')
          \<and> list_all2 (\<lambda>d d'. d_id d' = d_id d \<and> (d_id d = pr_doctor_id ids \<or> d' = d))
              (doctor db) (doctor db')
          \<and> list_all2
              (\<lambda>m m'. m_id m' = m_id m \<and> (m_id m = pr_medicine_id ids \<or> m' = m))
              (medicine db) (medicine db'))"

definition changed_rows :: "'a list \<Rightarrow> 'a list \<Rightarrow> nat" where
  "changed_rows rows rows' = length (filter (\<lambda>(r, r'). r' \<noteq> r) (zip rows rows'))"

text \<open>
  A page as the specification words it: a missing page is 1 and a missing pageSize is
  10, a supplied value is taken as it is. The list holds the rows of the ordered join
  at offset (page - 1) * pageSize, a position in the join, and at most pageSize of
  them; every row carries the number of reference rows as totalCount and the ceiling
  of totalCount / pageSize as totalPages. \<open>zero_as_missing\<close> is the request with
  every 0 taken out.
\<close>

definition requested_page :: "page_request \<Rightarrow> int" where
  "requested_page req = (case page req of None \<Rightarrow> 1 | Some p \<Rightarrow> p)"

definition requested_pageSize :: "page_request \<Rightarrow> int" where
  "requested_pageSize req = (case pageSize req of None \<Rightarrow> 10 | Some s \<Rightarrow> s)"

definition page_as_specified :: "page_request \<Rightarrow> database \<Rightarrow> page_response \<Rightarrow> bool" where
  "page_as_specified req db resp =
     (0 \<le> (requested_page req - 1) * requested_pageSize req
      \<and> map details (patients resp)
          = take (nat (requested_pageSize req))
              (drop (nat ((requested_page req - 1) * requested_pageSize req))
                 (ordered_join db))
      \<and> int (length (patients resp)) \<le> requested_pageSize req
      \<and> list_all
          (\<lambda>row. totalCount row = int (length (prescription_reference db))
                \<and> totalPages row
                    = \<lceil>real_of_int (totalCount row)
                        / real_of_int (requested_pageSize req)\<rceil>)
          (patients resp))"

definition zero_as_missing :: "page_request \<Rightarrow> page_request" where
  "zero_as_missing req =
     \<lparr>page = (case page req of None \<Rightarrow> None | Some p \<Rightarrow> if p = 0 then None else Some p),
      pageSize =
        (case pageSize req of None \<Rightarrow> None | Some s \<Rightarrow> if s = 0 then None else Some s)\<rparr>"

section \<open>Example data\<close>

definition no_faults :: faults where
  "no_faults = (\<lambda>s. False)"

definition example_db :: database where
  "example_db =
     \<lparr>patient =
        [\<lparr>p_id = 1, p_name = Some ''Ann'', p_age = Some 30, p_gender = Some ''F'',
          p_contact = Some ''555-0101''\<rparr>,
         \<lparr>p_id = 2, p_name = Some ''Bob'', p_age = Some 41, p_gender = Some ''M'',
          p_contact = None\<rparr>],
      doctor = [\<lparr>d_id = 7, d_name = Some ''Dr Grey''\<rparr>],
      medicine =
        [\<lparr>m_id = 9, m_name = Some ''Aspirin'', m_description = Some ''pain relief''\<rparr>],
      prescription_reference =
        [\<lparr>pr_reference_number = ''RX-2'', pr_patient_id = 2, pr_doctor_id = 7,
          pr_medicine_id = 9\<rparr>,
         \<lparr>pr_reference_number = ''RX-1'', pr_patient_id = 1, pr_doctor_id = 7,
          pr_medicine_id = 9\<rparr>]\<rparr>"

definition only_reference :: "string \<Rightarrow> update_request" where
  "only_reference ref =
     \<lparr>reference_number = ref, name = None, age = None, gender = None, contact = None,
      doctor_name = None, medicine_name = None, description = None\<rparr>"

definition doctor_update_fails :: faults where
  "doctor_update_fails = (\<lambda>s. s = UpdateDoctor)"

definition rename_request :: update_request where
  "rename_request =
     \<lparr>reference_number = ''RX-1'', name = Some ''Anna'', age = None, gender = None,
      contact = None, doctor_name = Some ''Dr House'', medicine_name = None,
      description = Some ''fever''\<rparr>"

definition falsy_request :: update_request where
  "falsy_request =
     \<lparr>reference_number = ''RX-1'', name = Some '''', age = Some 0, gender = Some ''X'',
      contact = None, doctor_name = Some '''', medicine_name = None,
      description = Some ''''\<rparr>"

definition rx1 :: reference_row where
  "rx1 = \<lparr>pr_reference_number = ''RX-1'', pr_patient_id = 1, pr_doctor_id = 7,
           pr_medicine_id = 9\<rparr>"

definition zero_size_request :: page_request where
  "zero_size_request = \<lparr>page = Some 1, pageSize = Some 0\<rparr>"

definition zero_page_request :: page_request where
  "zero_page_request = \<lparr>page = Some 0, pageSize = Some 1\<rparr>"

definition second_page_request :: page_request where
  "second_page_request = \<lparr>page = Some 2, pageSize = Some 1\<rparr>"

section \<open>The update block and the shape of a call\<close>

lemma update_medicine_no_description:
  "update_medicine mid n None = update_medicine_name mid n"
  by (rule ext) (simp add: update_medicine_def update_medicine_name_def COALESCE_def)

lemma conditional_updates_grpc_eq:
  "conditional_updates_grpc F req ids t = conditional_updates F (req\<lparr>description := None\<rparr>) ids t"
  by (simp add: conditional_updates_grpc_def conditional_updates_def
      update_medicine_no_description truthy_str_def or_null_str_def cong: if_cong)

lemma UpdatePatientDetails_grpc_eq:
  "UpdatePatientDetails_grpc F req db = UpdatePatientDetails F (req\<lparr>description := None\<rparr>) db"
  by (simp add: UpdatePatientDetails_grpc_def UpdatePatientDetails_def update_transaction_def
      conditional_updates_grpc_eq select_ids_def split: list.splits)

lemma three_statements_Inr:
  assumes "and_then
       (and_then (if c1 then exec F s1 f1 (db, tr) else Inr (db, tr))
          (\<lambda>t. if c2 then exec F s2 f2 t else Inr t))
       (\<lambda>t. if c3 then exec F s3 f3 t else Inr t) = Inr (view, tr')"
  shows "view = (if c3 then f3 else id) ((if c2 then f2 else id) ((if c1 then f1 else id) db))"
    and "tr' = tr @ (if c1 then [s1] else []) @ (if c2 then [s2] else []) @ (if c3 then [s3] else [])"
    and "\<not> (c1 \<and> F s1)" and "\<not> (c2 \<and> F s2)" and "\<not> (c3 \<and> F s3)"
  using assms
  by (cases c1; cases c2; cases c3; simp add: exec_def and_then_def split: if_splits; fail)+

lemma three_statements_Inl:
  assumes "and_then
       (and_then (if c1 then exec F s1 f1 (db, tr) else Inr (db, tr))
          (\<lambda>t. if c2 then exec F s2 f2 t else Inr t))
       (\<lambda>t. if c3 then exec F s3 f3 t else Inr t) = Inl tr'"
  shows "(c1 \<and> F s1 \<and> tr' = tr @ [s1])
       \<or> (c2 \<and> F s2 \<and> tr' = tr @ (if c1 then [s1] else []) @ [s2])
       \<or> (c3 \<and> F s3 \<and> tr' = tr @ (if c1 then [s1] else []) @ (if c2 then [s2] else []) @ [s3])"
  using assms
  by (cases c1; cases c2; cases c3; simp add: exec_def and_then_def split: if_splits)

lemma three_statements_total:
  assumes "\<not> (c1 \<and> F s1)" and "\<not> (c2 \<and> F s2)" and "\<not> (c3 \<and> F s3)"
  shows "and_then
       (and_then (if c1 then exec F s1 f1 (db, tr) else Inr (db, tr))
          (\<lambda>t. if c2 then exec F s2 f2 t else Inr t))
       (\<lambda>t. if c3 then exec F s3 f3 t else Inr t)
     = Inr ((if c3 then f3 else id) ((if c2 then f2 else id) ((if c1 then f1 else id) db)),
            tr @ (if c1 then [s1] else []) @ (if c2 then [s2] else []) @ (if c3 then [s3] else []))"
  using assms
  by (cases c1; cases c2; cases c3; simp add: exec_def and_then_def)


lemma conditional_updates_shape:
  fixes req ids F
  defines "c1 \<equiv> truthy_str (name req) \<or> truthy_int (age req)
                    \<or> truthy_str (gender req) \<or> truthy_str (contact req)"
    and "c2 \<equiv> truthy_str (doctor_name req)"
    and "c3 \<equiv> truthy_str (medicine_name req) \<or> truthy_str (description req)"
    and "f1 \<equiv> update_patient (pr_patient_id ids) (or_null_str (name req))
                        (or_null_int (age req)) (or_null_str (gender req))
                        (or_null_str (contact req))"
    and "f2 \<equiv> update_doctor (pr_doctor_id ids) (doctor_name req)"
    and "f3 \<equiv> update_medicine (pr_medicine_id ids) (or_null_str (medicine_name req))
                (or_null_str (description req))"
  shows "conditional_updates F req ids (db, tr) =
      and_then
       (and_then (if c1 then exec F UpdatePatient f1 (db, tr) else Inr (db, tr))
          (\<lambda>t. if c2 then exec F UpdateDoctor f2 t else Inr t))
       (\<lambda>t. if c3 then exec F UpdateMedicine f3 t else Inr t)"
    and "apply_updates req ids db =
       (if c3 then f3 else id) ((if c2 then f2 else id) ((if c1 then f1 else id) db))"
    and "planned_updates req = (if c1 then [UpdatePatient] else [])
       @ (if c2 then [UpdateDoctor] else []) @ (if c3 then [UpdateMedicine] else [])"
  unfolding conditional_updates_def apply_updates_def planned_updates_def Let_def
    c1_def c2_def c3_def f1_def f2_def f3_def
  by (rule refl, simp only: id_apply if_distrib [of "\<lambda>f. f _"] cong: if_cong, rule refl)

lemma conditional_updates_Inr:
  assumes "conditional_updates F req ids (db, tr) = Inr (view, tr')"
  shows "view = apply_updates req ids db" and "tr' = tr @ planned_updates req"
    and "\<forall>s \<in> set (planned_updates req). \<not> F s"
proof -
  note h = three_statements_Inr [OF assms [unfolded conditional_updates_shape(1)]]
  show "view = apply_updates req ids db" using h(1) by (simp only: conditional_updates_shape(2))
  show "tr' = tr @ planned_updates req" using h(2) by (simp only: conditional_updates_shape(3))
  show "\<forall>s \<in> set (planned_updates req). \<not> F s"
    unfolding conditional_updates_shape(3) using h(3,4,5) by auto
qed

lemma conditional_updates_Inl:
  assumes "conditional_updates F req ids (db, tr) = Inl tr'"
  shows "\<exists>s \<in> set (planned_updates req). F s \<and> last tr' = s"
    and "set tr' \<subseteq> set tr \<union> set (planned_updates req)"
proof -
  note h = three_statements_Inl [OF assms [unfolded conditional_updates_shape(1)]]
  show "\<exists>s \<in> set (planned_updates req). F s \<and> last tr' = s"
    unfolding conditional_updates_shape(3) using h by (elim disjE conjE) simp_all
  show "set tr' \<subseteq> set tr \<union> set (planned_updates req)"
    unfolding conditional_updates_shape(3) using h by (elim disjE conjE) (simp_all, blast+)
qed

lemma conditional_updates_total:
  assumes "\<forall>s \<in> set (planned_updates req). \<not> F s"
  shows "conditional_updates F req ids (db, tr)
         = Inr (apply_updates req ids db, tr @ planned_updates req)"
  unfolding conditional_updates_shape
  by (rule three_statements_total)
    (use assms [unfolded conditional_updates_shape(3)] in auto)


lemma set_planned_updates:
  "set (planned_updates req) \<subseteq> {UpdatePatient, UpdateDoctor, UpdateMedicine}"
  by (auto simp: planned_updates_def split: if_splits)

lemma UpdatePatientDetails_cases:
  obtains
    (connect) "F Connect"
      "UpdatePatientDetails F req db = \<lparr>reply = Inl INTERNAL, db_after = db, trace = [Connect]\<rparr>"
  | (begin_tx) "\<not> F Connect" "F Begin"
      "UpdatePatientDetails F req db
         = \<lparr>reply = Inl INTERNAL, db_after = db, trace = [Connect, Begin]\<rparr>"
  | (lookup) "\<not> F Connect" "\<not> F Begin" "F Lookup"
      "UpdatePatientDetails F req db
         = \<lparr>reply = Inl INTERNAL, db_after = db,
             trace = [Connect, Begin, Lookup, RollbackOnError]\<rparr>"
  | (not_found) "\<not> F Connect" "\<not> F Begin" "\<not> F Lookup" "\<not> F RollbackNotFound"
      "select_ids (reference_number req) db = []"
      "UpdatePatientDetails F req db
         = \<lparr>reply = Inl NOT_FOUND, db_after = db,
             trace = [Connect, Begin, Lookup, RollbackNotFound]\<rparr>"
  | (rollback) "\<not> F Connect" "\<not> F Begin" "\<not> F Lookup" "F RollbackNotFound"
      "select_ids (reference_number req) db = []"
      "UpdatePatientDetails F req db
         = \<lparr>reply = Inl INTERNAL, db_after = db,
             trace = [Connect, Begin, Lookup, RollbackNotFound, RollbackOnError]\<rparr>"
  | (update) ids rest tr s where "\<not> F Connect" "\<not> F Begin" "\<not> F Lookup"
      "select_ids (reference_number req) db = ids # rest"
      "s \<in> set (planned_updates req)" "F s"
      "set tr \<subseteq> {Connect, Begin, Lookup} \<union> set (planned_updates req)"
      "UpdatePatientDetails F req db
         = \<lparr>reply = Inl INTERNAL, db_after = db, trace = tr @ [RollbackOnError]\<rparr>"
  | (commit) ids rest where "\<not> F Connect" "\<not> F Begin" "\<not> F Lookup"
      "select_ids (reference_number req) db = ids # rest"
      "\<forall>s \<in> set (planned_updates req). \<not> F s" "F Commit"
      "UpdatePatientDetails F req db
         = \<lparr>reply = Inl INTERNAL, db_after = db,
            trace = [Connect, Begin, Lookup] @ planned_updates req @ [Commit, RollbackOnError]\<rparr>"
  | (success) ids rest where "\<not> F Connect" "\<not> F Begin" "\<not> F Lookup"
      "select_ids (reference_number req) db = ids # rest"
      "\<forall>s \<in> set (planned_updates req). \<not> F s" "\<not> F Commit"
      "UpdatePatientDetails F req db
         = \<lparr>reply = Inr \<lparr>success = True\<rparr>, db_after = apply_updates req ids db,
            trace = [Connect, Begin, Lookup] @ planned_updates req @ [Commit]\<rparr>"
proof -
  let ?U = "UpdatePatientDetails F req db"
  note defs = UpdatePatientDetails_def update_transaction_def on_error_def
  show thesis
  proof (cases "F Connect \<or> F Begin \<or> F Lookup")
    case True
    then show thesis using connect begin_tx lookup by (auto simp: defs)
  next
    case ok: False
    show thesis
    proof (cases "select_ids (reference_number req) db")
      case Nil
      then show thesis using ok not_found rollback by (cases "F RollbackNotFound") (auto simp: defs)
    next
      case (Cons ids rest)
      show thesis
      proof (cases "conditional_updates F req ids (db, [Connect, Begin, Lookup])")
        case (Inl tr)
        from conditional_updates_Inl [OF Inl] obtain s where
          "s \<in> set (planned_updates req)" "F s"
          "set tr \<subseteq> {Connect, Begin, Lookup} \<union> set (planned_updates req)"
          by auto
        moreover have "?U = \<lparr>reply = Inl INTERNAL, db_after = db, trace = tr @ [RollbackOnError]\<rparr>"
          using ok Cons Inl by (simp add: defs)
        ultimately show thesis using ok Cons update by blast
      next
        case (Inr t)
        obtain view tr where t: "t = (view, tr)" by (cases t)
        note r = conditional_updates_Inr [OF Inr [unfolded t]]
        show thesis
        proof (cases "F Commit")
          case True
          then have "?U = \<lparr>reply = Inl INTERNAL, db_after = db,
            trace = [Connect, Begin, Lookup] @ planned_updates req @ [Commit, RollbackOnError]\<rparr>"
            using ok Cons Inr t r(2) by (simp add: defs)
          then show thesis using ok Cons r(3) True commit by blast
        next
          case False
          then have "?U = \<lparr>reply = Inr \<lparr>success = True\<rparr>, db_after = apply_updates req ids db,
            trace = [Connect, Begin, Lookup] @ planned_updates req @ [Commit]\<rparr>"
            using ok Cons Inr t r(1,2) by (simp add: defs)
          then show thesis using ok Cons r(3) False success by blast
        qed
      qed
    qed
  qed
qed

lemma select_ids_empty_iff:
  "select_ids ref db = [] \<longleftrightarrow> (\<forall>pr \<in> set (prescription_reference db). pr_reference_number pr \<noteq> ref)"
  by (simp add: select_ids_def filter_empty_conv)

lemma select_ids_without_description [simp]:
  "reference_number (req\<lparr>description := None\<rparr>) = reference_number req"
  by simp

lemma rollback_on_failure:
  assumes "s \<in> set (trace (UpdatePatientDetails F req db))"
    and "s \<in> {Lookup, UpdatePatient, UpdateDoctor, UpdateMedicine}" and "F s"
  shows "reply (UpdatePatientDetails F req db) = Inl INTERNAL \<and>
         db_after (UpdatePatientDetails F req db) = db \<and>
         last (trace (UpdatePatientDetails F req db)) = RollbackOnError \<and>
         Commit \<notin> set (trace (UpdatePatientDetails F req db))"
  using assms set_planned_updates [of req]
  by (cases rule: UpdatePatientDetails_cases [of F req db]) auto

lemma all_or_nothing:
  "db_after (UpdatePatientDetails F req db) = db
   \<or> (\<exists>ids rest. select_ids (reference_number req) db = ids # rest
        \<and> db_after (UpdatePatientDetails F req db) = apply_updates req ids db
        \<and> reply (UpdatePatientDetails F req db) = Inr \<lparr>success = True\<rparr>
        \<and> (\<forall>s \<in> set (trace (UpdatePatientDetails F req db)). \<not> F s))"
  by (cases rule: UpdatePatientDetails_cases [of F req db]) auto

lemmas example_defs = example_db_def rename_request_def only_reference_def
  falsy_request_def rx1_def
  doctor_update_fails_def no_faults_def

lemmas handler_defs = UpdatePatientDetails_def UpdatePatientDetails_grpc_def
  update_transaction_def conditional_updates_def conditional_updates_grpc_def
  exec_def and_then_def on_error_def select_ids_def
  truthy_str_def truthy_int_def or_null_str_def or_null_int_def

section \<open>Failure inside the transaction\<close>

text \<open>
  C1. Whenever a step issued after BEGIN (the id lookup or one of the conditional UPDATE
  statements) raises, the handler rolls back, the caller receives INTERNAL and the
  committed database is the one before the call; no COMMIT is issued. In every call
  the committed database is either untouched or carries all the updates the request
  calls for, never a part of them. \<open>handler\<close> ranges over the revisions of the
  handler, \<open>r\<close> is the request as the revision reads it.
\<close>

theorem update_failure_rolls_back:
  assumes "handler = UpdatePatientDetails \<and> r = req
           \<or> handler = UpdatePatientDetails_grpc \<and> r = req\<lparr>description := None\<rparr>"
  shows "((\<exists>s \<in> set (trace (handler F req db)).
             s \<in> {Lookup, UpdatePatient, UpdateDoctor, UpdateMedicine} \<and> F s) \<longrightarrow>
           reply (handler F req db) = Inl INTERNAL
           \<and> db_after (handler F req db) = db
           \<and> last (trace (handler F req db)) = RollbackOnError
           \<and> Commit \<notin> set (trace (handler F req db)))
         \<and> (db_after (handler F req db) = db
            \<or> (\<exists>ids rest. select_ids (reference_number req) db = ids # rest
                 \<and> db_after (handler F req db) = apply_updates r ids db
                 \<and> reply (handler F req db) = Inr \<lparr>success = True\<rparr>
                 \<and> (\<forall>s \<in> set (trace (handler F req db)). \<not> F s)))"
proof -
  have eq: "handler F req db = UpdatePatientDetails F r db"
    and ref: "reference_number r = reference_number req"
    using assms by (auto simp: UpdatePatientDetails_grpc_eq)
  show ?thesis
    unfolding eq using rollback_on_failure [of _ F r db] all_or_nothing [of F r db]
    unfolding ref by blast
qed

theorem update_failure_rolls_back_witness:
  "UpdateDoctor \<in> set (trace (UpdatePatientDetails doctor_update_fails rename_request example_db))
   \<and> doctor_update_fails UpdateDoctor
   \<and> reply (UpdatePatientDetails doctor_update_fails rename_request example_db) = Inl INTERNAL
   \<and> db_after (UpdatePatientDetails doctor_update_fails rename_request example_db) = example_db
   \<and> trace (UpdatePatientDetails doctor_update_fails rename_request example_db)
       = [Connect, Begin, Lookup, UpdatePatient, UpdateDoctor, RollbackOnError]"
proof -
  have tr: "trace (UpdatePatientDetails doctor_update_fails rename_request example_db)
       = [Connect, Begin, Lookup, UpdatePatient, UpdateDoctor, RollbackOnError]"
    by (simp add: handler_defs example_defs)
  have f: "doctor_update_fails UpdateDoctor" by (simp add: doctor_update_fails_def)
  from update_failure_rolls_back
    [of UpdatePatientDetails rename_request rename_request doctor_update_fails example_db]
  show ?thesis using tr f by simp
qed

section \<open>Unknown reference, and a request with no fields\<close>

lemma unknown_reference_outcome:
  assumes "select_ids (reference_number req) db = []"
  shows "db_after (UpdatePatientDetails F req db) = db"
    and "set (trace (UpdatePatientDetails F req db))
           \<subseteq> {Connect, Begin, Lookup, RollbackNotFound, RollbackOnError}"
    and "reply (UpdatePatientDetails F req db) = Inl NOT_FOUND
           \<longleftrightarrow> \<not> F Connect \<and> \<not> F Begin \<and> \<not> F Lookup \<and> \<not> F RollbackNotFound"
    and "reply (UpdatePatientDetails F req db) \<noteq> Inl NOT_FOUND
           \<Longrightarrow> reply (UpdatePatientDetails F req db) = Inl INTERNAL"
    and "\<not> F Connect \<and> \<not> F Begin \<and> \<not> F Lookup \<and> \<not> F RollbackNotFound
           \<Longrightarrow> trace (UpdatePatientDetails F req db)
                 = [Connect, Begin, Lookup, RollbackNotFound]"
  using assms
  by (cases rule: UpdatePatientDetails_cases [of F req db]; simp; fail)+

text \<open>
  C3. When no reference row carries the request's reference number, the committed
  database is unchanged and no UPDATE or COMMIT is issued, whatever raises. The reply
  is NOT_FOUND exactly when the connection, BEGIN, the lookup and the ROLLBACK all
  succeed, and INTERNAL otherwise; in the first case the steps are BEGIN, lookup,
  ROLLBACK after connecting, and nothing else.
\<close>

theorem unknown_reference_rolls_back:
  assumes "handler = UpdatePatientDetails \<or> handler = UpdatePatientDetails_grpc"
    and "\<forall>pr \<in> set (prescription_reference db).
           pr_reference_number pr \<noteq> reference_number req"
  shows "db_after (handler F req db) = db
       \<and> set (trace (handler F req db))
           \<subseteq> {Connect, Begin, Lookup, RollbackNotFound, RollbackOnError}
       \<and> (reply (handler F req db) = Inl NOT_FOUND
           \<or> reply (handler F req db) = Inl INTERNAL)
       \<and> (reply (handler F req db) = Inl NOT_FOUND
           \<longleftrightarrow> \<not> F Connect \<and> \<not> F Begin \<and> \<not> F Lookup \<and> \<not> F RollbackNotFound)
       \<and> (\<not> F Connect \<and> \<not> F Begin \<and> \<not> F Lookup \<and> \<not> F RollbackNotFound \<longrightarrow>
            trace (handler F req db) = [Connect, Begin, Lookup, RollbackNotFound])"
proof -
  obtain r where eq: "handler F req db = UpdatePatientDetails F r db"
    and ref: "reference_number r = reference_number req"
    using assms(1) by (auto simp: UpdatePatientDetails_grpc_eq)
  have "select_ids (reference_number r) db = []"
    using assms(2) by (simp add: ref select_ids_empty_iff)
  from unknown_reference_outcome [OF this, of F] show ?thesis
    unfolding eq by blast
qed

theorem unknown_reference_rolls_back_witness:
  "select_ids (reference_number (only_reference ''RX-9'')) example_db = []
   \<and> reply (UpdatePatientDetails no_faults (only_reference ''RX-9'') example_db) = Inl NOT_FOUND
   \<and> db_after (UpdatePatientDetails no_faults (only_reference ''RX-9'') example_db) = example_db
   \<and> trace (UpdatePatientDetails no_faults (only_reference ''RX-9'') example_db)
       = [Connect, Begin, Lookup, RollbackNotFound]"
proof -
  have h: "\<forall>pr \<in> set (prescription_reference example_db).
       pr_reference_number pr \<noteq> reference_number (only_reference ''RX-9'')"
    by (simp add: example_defs)
  from unknown_reference_rolls_back [OF _ h, of UpdatePatientDetails no_faults]
  show ?thesis using h by (simp add: no_faults_def select_ids_empty_iff)
qed

lemma nothing_to_update:
  assumes "name req = None" "age req = None" "gender req = None" "contact req = None"
    "doctor_name req = None" "medicine_name req = None" "description req = None"
  shows "planned_updates req = []" and "apply_updates req ids db = db"
  using assms by (simp_all add: planned_updates_def apply_updates_def truthy_str_def truthy_int_def)

lemma empty_update_outcome:
  assumes "planned_updates req = []" and "\<And>ids. apply_updates req ids db = db"
  shows "db_after (UpdatePatientDetails F req db) = db"
    and "set (trace (UpdatePatientDetails F req db))
           \<subseteq> {Connect, Begin, Lookup, RollbackNotFound, Commit, RollbackOnError}"
    and "select_ids (reference_number req) db \<noteq> [] \<Longrightarrow>
         \<not> F Connect \<and> \<not> F Begin \<and> \<not> F Lookup \<and> \<not> F Commit \<Longrightarrow>
           reply (UpdatePatientDetails F req db) = Inr \<lparr>success = True\<rparr>
           \<and> trace (UpdatePatientDetails F req db) = [Connect, Begin, Lookup, Commit]"
  using assms
  by (cases rule: UpdatePatientDetails_cases [of F req db]; simp; fail)+

text \<open>
  C10. A request that supplies nothing but a reference number leaves the committed
  database unchanged and issues no UPDATE, whatever raises. When the reference
  exists and the connection, BEGIN, the lookup and COMMIT succeed, the steps are
  BEGIN, lookup, COMMIT after connecting and the reply is success = true.
\<close>

theorem update_without_fields_is_identity:
  assumes "handler = UpdatePatientDetails \<or> handler = UpdatePatientDetails_grpc"
    and "name req = None" "age req = None" "gender req = None" "contact req = None"
    "doctor_name req = None" "medicine_name req = None" "description req = None"
  shows "db_after (handler F req db) = db
       \<and> set (trace (handler F req db))
           \<subseteq> {Connect, Begin, Lookup, RollbackNotFound, Commit, RollbackOnError}
       \<and> ((\<exists>pr \<in> set (prescription_reference db).
              pr_reference_number pr = reference_number req)
           \<and> \<not> F Connect \<and> \<not> F Begin \<and> \<not> F Lookup \<and> \<not> F Commit \<longrightarrow>
             reply (handler F req db) = Inr \<lparr>success = True\<rparr>
             \<and> trace (handler F req db) = [Connect, Begin, Lookup, Commit])"
proof -
  obtain r where eq: "handler F req db = UpdatePatientDetails F r db"
    and ref: "reference_number r = reference_number req"
    and r: "name r = None" "age r = None" "gender r = None" "contact r = None"
    "doctor_name r = None" "medicine_name r = None" "description r = None"
    using assms by (auto simp: UpdatePatientDetails_grpc_eq)
  note n = nothing_to_update [OF r]
  note e = empty_update_outcome [OF n(1) n(2), where F = F and db = db]
  show ?thesis
    unfolding eq using e(1,2) e(3) [unfolded ref select_ids_empty_iff] by blast
qed

theorem update_without_fields_is_identity_witness:
  "(\<exists>pr \<in> set (prescription_reference example_db).
       pr_reference_number pr = reference_number (only_reference ''RX-1''))
   \<and> db_after (UpdatePatientDetails no_faults (only_reference ''RX-1'') example_db) = example_db
   \<and> reply (UpdatePatientDetails no_faults (only_reference ''RX-1'') example_db)
       = Inr \<lparr>success = True\<rparr>
   \<and> trace (UpdatePatientDetails no_faults (only_reference ''RX-1'') example_db)
       = [Connect, Begin, Lookup, Commit]"
proof -
  have h: "\<exists>pr \<in> set (prescription_reference example_db).
       pr_reference_number pr = reference_number (only_reference ''RX-1'')"
    by (simp add: example_defs)
  from update_without_fields_is_identity
    [of UpdatePatientDetails "only_reference ''RX-1''" no_faults example_db]
  show ?thesis using h by (simp add: no_faults_def only_reference_def)
qed

section \<open>What an update may change\<close>

lemma tables_apply_updates:
  "patient (apply_updates req ids db) =
     (if truthy_str (name req) \<or> truthy_int (age req)
         \<or> truthy_str (gender req) \<or> truthy_str (contact req)
      then map (\<lambda>p. if p_id p = pr_patient_id ids
                then p\<lparr>p_name := COALESCE (or_null_str (name req)) (p_name p),
                       p_age := COALESCE (or_null_int (age req)) (p_age p),
                       p_gender := COALESCE (or_null_str (gender req)) (p_gender p),
                       p_contact := COALESCE (or_null_str (contact req)) (p_contact p)\<rparr>
                else p) (patient db)
      else patient db)"
  "doctor (apply_updates req ids db) =
     (if truthy_str (doctor_name req)
      then map (\<lambda>d. if d_id d = pr_doctor_id ids then d\<lparr>d_name := doctor_name req\<rparr> else d)
             (doctor db)
      else doctor db)"
  "medicine (apply_updates req ids db) =
     (if truthy_str (medicine_name req) \<or> truthy_str (description req)
      then map (\<lambda>m. if m_id m = pr_medicine_id ids
                then m\<lparr>m_name := COALESCE (or_null_str (medicine_name req)) (m_name m),
                       m_description :=
                         COALESCE (or_null_str (description req)) (m_description m)\<rparr>
                else m) (medicine db)
      else medicine db)"
  "prescription_reference (apply_updates req ids db) = prescription_reference db"
  by (simp_all add: apply_updates_def Let_def update_patient_def update_doctor_def
      update_medicine_def)

lemma ids_apply_updates:
  "map p_id (patient (apply_updates req ids db)) = map p_id (patient db)"
  "map d_id (doctor (apply_updates req ids db)) = map d_id (doctor db)"
  "map m_id (medicine (apply_updates req ids db)) = map m_id (medicine db)"
  by (simp_all add: tables_apply_updates o_def cong: map_cong)

lemma frame_apply_updates:
  "only_referenced_rows_change (ids # rest) db (apply_updates req ids db)"
  by (simp add: only_referenced_rows_change_def tables_apply_updates list_all2_map2
      list_all2_same)

lemma frame_unchanged: "only_referenced_rows_change matched db db"
  by (simp add: only_referenced_rows_change_def list_all2_same split: list.splits)

lemma changed_rows_same [simp]: "changed_rows rows rows = 0"
  by (induction rows) (simp_all add: changed_rows_def)

lemma changed_rows_le_count:
  assumes "list_all2 (\<lambda>r r'. key r' = key r \<and> (key r = k \<or> r' = r)) rows rows'"
  shows "changed_rows rows rows' \<le> count_list (map key rows) k"
  using assms by (induction rule: list_all2_induct) (auto simp: changed_rows_def)

lemma integrity_first_match:
  assumes "referential_integrity db" and "select_ids ref db = ids # rest"
  shows "count_list (map p_id (patient db)) (pr_patient_id ids) = 1"
    and "count_list (map d_id (doctor db)) (pr_doctor_id ids) = 1"
    and "count_list (map m_id (medicine db)) (pr_medicine_id ids) = 1"
proof -
  have "ids \<in> set (select_ids ref db)" using assms(2) by simp
  then have "ids \<in> set (prescription_reference db)" by (simp add: select_ids_def)
  with assms(1) show "count_list (map p_id (patient db)) (pr_patient_id ids) = 1"
    and "count_list (map d_id (doctor db)) (pr_doctor_id ids) = 1"
    and "count_list (map m_id (medicine db)) (pr_medicine_id ids) = 1"
    by (simp_all add: referential_integrity_def list_all_iff)
qed

lemma single_rows_change:
  assumes "referential_integrity db" and "select_ids ref db = ids # rest"
    and "only_referenced_rows_change (ids # rest) db db'"
  shows "changed_rows (patient db) (patient db') \<le> 1"
    and "changed_rows (doctor db) (doctor db') \<le> 1"
    and "changed_rows (medicine db) (medicine db') \<le> 1"
  using assms(3) integrity_first_match [OF assms(1,2)]
    changed_rows_le_count [of p_id "pr_patient_id ids" "patient db" "patient db'"]
    changed_rows_le_count [of d_id "pr_doctor_id ids" "doctor db" "doctor db'"]
    changed_rows_le_count [of m_id "pr_medicine_id ids" "medicine db" "medicine db'"]
  by (simp_all add: only_referenced_rows_change_def)

lemma frame_main:
  "prescription_reference (db_after (UpdatePatientDetails F req db)) = prescription_reference db"
  "only_referenced_rows_change (select_ids (reference_number req) db) db
     (db_after (UpdatePatientDetails F req db))"
  "referential_integrity db \<Longrightarrow>
     changed_rows (patient db) (patient (db_after (UpdatePatientDetails F req db))) \<le> 1
     \<and> changed_rows (doctor db) (doctor (db_after (UpdatePatientDetails F req db))) \<le> 1
     \<and> changed_rows (medicine db) (medicine (db_after (UpdatePatientDetails F req db))) \<le> 1"
proof -
  let ?db' = "db_after (UpdatePatientDetails F req db)"
  consider (same) "?db' = db"
    | (all) ids rest where "select_ids (reference_number req) db = ids # rest"
        "?db' = apply_updates req ids db"
    using all_or_nothing [of F req db] by blast
  note c = this
  show "prescription_reference ?db' = prescription_reference db"
    using c by cases (simp_all add: tables_apply_updates)
  show f: "only_referenced_rows_change (select_ids (reference_number req) db) db ?db'"
    using c by cases (simp_all add: frame_unchanged frame_apply_updates)
  show "changed_rows (patient db) (patient ?db') \<le> 1
     \<and> changed_rows (doctor db) (doctor ?db') \<le> 1
     \<and> changed_rows (medicine db) (medicine ?db') \<le> 1" if "referential_integrity db"
    using c
  proof cases
    case same
    then show ?thesis by simp
  next
    case all
    from single_rows_change [OF that all(1) f [unfolded all(1)]] show ?thesis by simp
  qed
qed

text \<open>
  C4. Every call leaves the reference table as it was. With no matched reference row
  the whole database is unchanged; otherwise every patient, doctor and medicine row
  keeps its id, and a row changes at most when its id is the one carried by the
  matched reference row. In a database with referential integrity that is at most one
  row of each of the three tables.
\<close>

theorem update_changes_only_referenced_rows:
  assumes "handler = UpdatePatientDetails \<or> handler = UpdatePatientDetails_grpc"
  shows "prescription_reference (db_after (handler F req db)) = prescription_reference db
       \<and> only_referenced_rows_change (select_ids (reference_number req) db) db
           (db_after (handler F req db))
       \<and> (referential_integrity db \<longrightarrow>
            changed_rows (patient db) (patient (db_after (handler F req db))) \<le> 1
            \<and> changed_rows (doctor db) (doctor (db_after (handler F req db))) \<le> 1
            \<and> changed_rows (medicine db) (medicine (db_after (handler F req db))) \<le> 1)"
proof -
  obtain r where eq: "handler F req db = UpdatePatientDetails F r db"
    and ref: "reference_number r = reference_number req"
    using assms by (auto simp: UpdatePatientDetails_grpc_eq)
  show ?thesis
    unfolding eq using frame_main [where F = F and req = r and db = db] unfolding ref by blast
qed

lemma integrity_example_db: "referential_integrity example_db"
  by (simp add: referential_integrity_def example_db_def)

theorem update_changes_only_referenced_rows_witness:
  "referential_integrity example_db
   \<and> prescription_reference (db_after (UpdatePatientDetails no_faults rename_request example_db))
       = prescription_reference example_db
   \<and> changed_rows (patient example_db)
        (patient (db_after (UpdatePatientDetails no_faults rename_request example_db))) = 1
   \<and> patient (db_after (UpdatePatientDetails no_faults rename_request example_db)) ! 1
       = patient example_db ! 1"
proof -
  have "changed_rows (patient example_db)
        (patient (db_after (UpdatePatientDetails no_faults rename_request example_db))) \<noteq> 0"
    and "patient (db_after (UpdatePatientDetails no_faults rename_request example_db)) ! 1
       = patient example_db ! 1"
    by (simp_all add: handler_defs example_defs update_patient_def update_doctor_def
        update_medicine_def COALESCE_def changed_rows_def)
  with update_changes_only_referenced_rows
    [of UpdatePatientDetails no_faults rename_request example_db] integrity_example_db
  show ?thesis by simp
qed

section \<open>Falsy request fields\<close>

lemma truthy_or_null [simp]:
  "truthy_str (or_null_str x) = truthy_str x" "truthy_int (or_null_int n) = truthy_int n"
  "or_null_str (or_null_str x) = or_null_str x" "or_null_int (or_null_int n) = or_null_int n"
  by (simp_all add: or_null_str_def or_null_int_def truthy_str_def truthy_int_def)

lemma or_null_truthy:
  "truthy_str x \<Longrightarrow> or_null_str x = x" "truthy_int n \<Longrightarrow> or_null_int n = n"
  by (simp_all add: or_null_str_def or_null_int_def)

lemma conditional_updates_truthy_fields:
  "conditional_updates F (truthy_fields req) ids t = conditional_updates F req ids t"
  by (simp add: conditional_updates_def truthy_fields_def or_null_truthy cong: if_cong)

lemma UpdatePatientDetails_truthy_fields:
  "UpdatePatientDetails F (truthy_fields req) db = UpdatePatientDetails F req db"
proof -
  have "reference_number (truthy_fields req) = reference_number req"
    by (simp add: truthy_fields_def)
  then show ?thesis
    by (simp add: UpdatePatientDetails_def update_transaction_def
        conditional_updates_truthy_fields split: list.splits)
qed

lemma truthy_fields_without_description:
  "truthy_fields (req\<lparr>description := None\<rparr>) = (truthy_fields req)\<lparr>description := None\<rparr>"
  by (simp add: truthy_fields_def or_null_str_def truthy_str_def)

lemma UpdatePatientDetails_grpc_truthy_fields:
  "UpdatePatientDetails_grpc F (truthy_fields req) db = UpdatePatientDetails_grpc F req db"
  by (simp add: UpdatePatientDetails_grpc_eq truthy_fields_without_description [symmetric]
      UpdatePatientDetails_truthy_fields)

lemma COALESCE_or_null:
  "kept_or_truthy_str stored (COALESCE (or_null_str x) stored)"
  "kept_or_truthy_int stored' (COALESCE (or_null_int n) stored')"
  by (auto simp: kept_or_truthy_str_def kept_or_truthy_int_def COALESCE_def or_null_str_def
      or_null_int_def split: option.splits)

lemma kept_refl [simp]: "kept_or_truthy_str x x" "kept_or_truthy_int n n"
  by (simp_all add: kept_or_truthy_str_def kept_or_truthy_int_def)

lemma no_falsy_written_same: "no_falsy_written db db"
  by (simp add: no_falsy_written_def list_all2_same)

lemma no_falsy_written_apply_updates: "no_falsy_written db (apply_updates req ids db)"
  by (simp add: no_falsy_written_def tables_apply_updates list_all2_map2 list_all2_same
      COALESCE_or_null kept_or_truthy_str_def [of _ "doctor_name req"])

lemma COALESCE_None [simp]: "COALESCE None stored = stored"
  by (simp add: COALESCE_def)

lemma or_null_falsy:
  "\<not> truthy_str x \<Longrightarrow> or_null_str x = None" "\<not> truthy_int n \<Longrightarrow> or_null_int n = None"
  by (simp_all add: or_null_str_def or_null_int_def)

lemma falsy_columns_kept_same: "falsy_columns_kept req db db"
  by (simp add: falsy_columns_kept_def)

lemma falsy_columns_kept_apply_updates: "falsy_columns_kept req db (apply_updates req ids db)"
  unfolding falsy_columns_kept_def
  by (intro conjI; cases "truthy_str (name req)"; cases "truthy_int (age req)";
      cases "truthy_str (gender req)"; cases "truthy_str (contact req)";
      cases "truthy_str (doctor_name req)"; cases "truthy_str (medicine_name req)";
      cases "truthy_str (description req)";
      simp add: tables_apply_updates or_null_falsy o_def cong: map_cong)

lemma falsy_main:
  "no_falsy_written db (db_after (UpdatePatientDetails F req db))"
  "falsy_columns_kept req db (db_after (UpdatePatientDetails F req db))"
  using all_or_nothing [of F req db]
  by (auto simp: no_falsy_written_same no_falsy_written_apply_updates
      falsy_columns_kept_same falsy_columns_kept_apply_updates)

text \<open>
  C9. A falsy request field (age 0, or an empty string in any text field) is read
  exactly as a missing one: the call with the falsy fields taken out has the same
  reply, database and steps. The column of a falsy field holds the same values after
  the call, and no call writes a falsy value (0, the empty string) into a column
  that did not hold it before.
\<close>

theorem falsy_fields_are_missing_fields:
  assumes "handler = UpdatePatientDetails \<or> handler = UpdatePatientDetails_grpc"
  shows "handler F req db = handler F (truthy_fields req) db
       \<and> falsy_columns_kept req db (db_after (handler F req db))
       \<and> no_falsy_written db (db_after (handler F req db))"
proof -
  from assms consider (new) "handler = UpdatePatientDetails"
    | (old) "handler = UpdatePatientDetails_grpc" by blast
  then show ?thesis
  proof cases
    case new
    then show ?thesis
      by (simp add: UpdatePatientDetails_truthy_fields falsy_main)
  next
    case old
    have "falsy_columns_kept (req\<lparr>description := None\<rparr>) db db'
        \<Longrightarrow> falsy_columns_kept req db db'" for db'
      by (simp add: falsy_columns_kept_def truthy_str_def)
    with old show ?thesis
      using falsy_main [where F = F and req = "req\<lparr>description := None\<rparr>" and db = db]
      by (simp add: UpdatePatientDetails_grpc_truthy_fields)
        (simp add: UpdatePatientDetails_grpc_eq)
  qed
qed

theorem falsy_fields_are_missing_fields_witness:
  "age falsy_request = Some 0 \<and> name falsy_request = Some ''''
   \<and> UpdatePatientDetails no_faults falsy_request example_db
       = UpdatePatientDetails no_faults (truthy_fields falsy_request) example_db
   \<and> map p_age (patient (db_after (UpdatePatientDetails no_faults falsy_request example_db)))
       = [Some 30, Some 41]
   \<and> map p_name (patient (db_after (UpdatePatientDetails no_faults falsy_request example_db)))
       = [Some ''Ann'', Some ''Bob'']
   \<and> map p_gender (patient (db_after (UpdatePatientDetails no_faults falsy_request example_db)))
       = [Some ''X'', Some ''M'']"
proof -
  let ?out = "UpdatePatientDetails no_faults falsy_request example_db"
  have g: "map p_gender (patient (db_after ?out)) = [Some ''X'', Some ''M'']"
    by (simp add: handler_defs example_defs update_patient_def update_doctor_def
        update_medicine_def COALESCE_def)
  have f: "age falsy_request = Some 0" "name falsy_request = Some ''''"
    by (simp_all add: falsy_request_def)
  then have t: "\<not> truthy_int (age falsy_request)" "\<not> truthy_str (name falsy_request)"
    by (simp_all add: truthy_int_def truthy_str_def)
  have e: "map p_age (patient example_db) = [Some 30, Some 41]"
    "map p_name (patient example_db) = [Some ''Ann'', Some ''Bob'']"
    by (simp_all add: example_db_def)
  note th = falsy_fields_are_missing_fields
    [of UpdatePatientDetails no_faults falsy_request example_db]
  from th have eq: "?out = UpdatePatientDetails no_faults (truthy_fields falsy_request) example_db"
    and kept: "falsy_columns_kept falsy_request example_db (db_after ?out)"
    by blast+
  from kept t have "map p_age (patient (db_after ?out)) = map p_age (patient example_db)"
    "map p_name (patient (db_after ?out)) = map p_name (patient example_db)"
    by (simp_all add: falsy_columns_kept_def)
  with e g f eq show ?thesis by simp
qed

section \<open>What a successful update writes\<close>

lemma field_COALESCE: "field_as_specified x stored (COALESCE x stored)"
  by (simp add: field_as_specified_def COALESCE_def split: option.splits)

lemma field_None [simp]: "field_as_specified None stored stored"
  by (simp add: field_as_specified_def)

lemma field_truthy: "truthy_str x \<Longrightarrow> field_as_specified x stored x"
  by (auto simp: field_as_specified_def truthy_str_def split: option.splits)

lemma fields_truthy_fields [simp]:
  "name (truthy_fields req) = or_null_str (name req)"
  "age (truthy_fields req) = or_null_int (age req)"
  "gender (truthy_fields req) = or_null_str (gender req)"
  "contact (truthy_fields req) = or_null_str (contact req)"
  "doctor_name (truthy_fields req) = or_null_str (doctor_name req)"
  "medicine_name (truthy_fields req) = or_null_str (medicine_name req)"
  "description (truthy_fields req) = or_null_str (description req)"
  "reference_number (truthy_fields req) = reference_number req"
  by (simp_all add: truthy_fields_def)

lemma apply_updates_as_specified:
  "updated_as_specified (truthy_fields req) ids db (apply_updates req ids db)"
  unfolding updated_as_specified_def
proof (intro conjI)
  show "list_all2
     (\<lambda>p p'. if p_id p = pr_patient_id ids
         then p_id p' = p_id p
           \<and> field_as_specified (name (truthy_fields req)) (p_name p) (p_name p')
           \<and> field_as_specified (age (truthy_fields req)) (p_age p) (p_age p')
           \<and> field_as_specified (gender (truthy_fields req)) (p_gender p) (p_gender p')
           \<and> field_as_specified (contact (truthy_fields req)) (p_contact p) (p_contact p')
         else p' = p)
     (patient db) (patient (apply_updates req ids db))"
    by (cases "truthy_str (name req) \<or> truthy_int (age req)
         \<or> truthy_str (gender req) \<or> truthy_str (contact req)")
      (simp_all add: tables_apply_updates list_all2_map2 list_all2_same field_COALESCE
        or_null_falsy)
  show "list_all2
     (\<lambda>d d'. if d_id d = pr_doctor_id ids
         then d_id d' = d_id d
           \<and> field_as_specified (doctor_name (truthy_fields req)) (d_name d) (d_name d')
         else d' = d)
     (doctor db) (doctor (apply_updates req ids db))"
    by (cases "truthy_str (doctor_name req)")
      (simp_all add: tables_apply_updates list_all2_map2 list_all2_same field_truthy
        or_null_falsy or_null_truthy)
  show "list_all2
     (\<lambda>m m'. if m_id m = pr_medicine_id ids
         then m_id m' = m_id m
           \<and> field_as_specified (medicine_name (truthy_fields req)) (m_name m) (m_name m')
           \<and> field_as_specified (description (truthy_fields req)) (m_description m)
               (m_description m')
         else m' = m)
     (medicine db) (medicine (apply_updates req ids db))"
    by (cases "truthy_str (medicine_name req) \<or> truthy_str (description req)")
      (simp_all add: tables_apply_updates list_all2_map2 list_all2_same field_COALESCE
        or_null_falsy)
  show "prescription_reference (apply_updates req ids db) = prescription_reference db"
    by (simp add: tables_apply_updates)
qed

lemma update_succeeds:
  assumes "\<not> F Connect" "\<not> F Begin" "\<not> F Lookup" "\<not> F UpdatePatient" "\<not> F UpdateDoctor"
    "\<not> F UpdateMedicine" "\<not> F Commit"
    and "select_ids (reference_number req) db = ids # rest"
  shows "UpdatePatientDetails F req db
         = \<lparr>reply = Inr \<lparr>success = True\<rparr>, db_after = apply_updates req ids db,
            trace = [Connect, Begin, Lookup] @ planned_updates req @ [Commit]\<rparr>"
  using assms set_planned_updates [of req]
  by (cases rule: UpdatePatientDetails_cases [of F req db]) auto

text \<open>
  C2, as amended. When no database step raises and the reference number matches a
  reference row, the call answers success = true, and in the rows selected by the
  ids of the first matching reference row every column whose request field is truthy
  (a non-empty string, a non-zero age) holds the field's value, while every column
  whose field is missing or falsy keeps its stored value; all other rows and the
  reference table are unchanged. \<open>r\<close> is the request as the revision reads it: the
  revision of \<^verbatim>\<open>src/grpc/server.js\<close> does not read the description.
\<close>

theorem update_replaces_truthy_fields:
  assumes "handler = UpdatePatientDetails \<and> r = truthy_fields req
           \<or> handler = UpdatePatientDetails_grpc
             \<and> r = (truthy_fields req)\<lparr>description := None\<rparr>"
    and "\<not> F Connect" "\<not> F Begin" "\<not> F Lookup" "\<not> F UpdatePatient" "\<not> F UpdateDoctor"
    "\<not> F UpdateMedicine" "\<not> F Commit"
    and "select_ids (reference_number req) db = ids # rest"
  shows "reply (handler F req db) = Inr \<lparr>success = True\<rparr>
       \<and> updated_as_specified r ids db (db_after (handler F req db))"
proof -
  from assms(1) obtain q where eq: "handler F req db = UpdatePatientDetails F q db"
    and ref: "reference_number q = reference_number req" and r: "r = truthy_fields q"
    by (auto simp: UpdatePatientDetails_grpc_eq truthy_fields_without_description)
  from update_succeeds [OF assms(2-8), of q db ids rest] assms(9) ref
  have "UpdatePatientDetails F q db
         = \<lparr>reply = Inr \<lparr>success = True\<rparr>, db_after = apply_updates q ids db,
            trace = [Connect, Begin, Lookup] @ planned_updates q @ [Commit]\<rparr>"
    by simp
  then show ?thesis
    unfolding eq r by (simp add: apply_updates_as_specified)
qed

lemmas statement_defs = update_patient_def update_doctor_def update_medicine_def
  update_medicine_name_def COALESCE_def

theorem update_replaces_truthy_fields_witness:
  "select_ids (reference_number rename_request) example_db = [rx1]
   \<and> reply (UpdatePatientDetails no_faults rename_request example_db) = Inr \<lparr>success = True\<rparr>
   \<and> updated_as_specified (truthy_fields rename_request) rx1 example_db
        (db_after (UpdatePatientDetails no_faults rename_request example_db))
   \<and> map p_name (patient (db_after (UpdatePatientDetails no_faults rename_request example_db)))
        = [Some ''Anna'', Some ''Bob'']"
proof -
  have s: "select_ids (reference_number rename_request) example_db = [rx1]"
    by (simp add: select_ids_def example_defs)
  have n: "map p_name (patient (db_after (UpdatePatientDetails no_faults rename_request example_db)))
        = [Some ''Anna'', Some ''Bob'']"
    by (simp add: handler_defs example_defs statement_defs)
  from update_replaces_truthy_fields
    [of UpdatePatientDetails "truthy_fields rename_request" rename_request no_faults
      example_db rx1 "[]"]
  show ?thesis using s n by (simp add: no_faults_def)
qed

text \<open>
  C2 as stated fails. A supplied age of 0 and a supplied empty name do not replace the
  stored values, although the call succeeds; and the revision of
  \<^verbatim>\<open>src/grpc/server.js\<close> does not store a supplied description.
\<close>

theorem supplied_field_not_stored:
  "select_ids (reference_number falsy_request) example_db = [rx1]
   \<and> age falsy_request = Some 0
   \<and> reply (UpdatePatientDetails no_faults falsy_request example_db) = Inr \<lparr>success = True\<rparr>
   \<and> map p_age (patient (db_after (UpdatePatientDetails no_faults falsy_request example_db)))
        = [Some 30, Some 41]
   \<and> \<not> updated_as_specified falsy_request rx1 example_db
        (db_after (UpdatePatientDetails no_faults falsy_request example_db))
   \<and> select_ids (reference_number rename_request) example_db = [rx1]
   \<and> description rename_request = Some ''fever''
   \<and> reply (UpdatePatientDetails_grpc no_faults rename_request example_db)
        = Inr \<lparr>success = True\<rparr>
   \<and> map m_description
        (medicine (db_after (UpdatePatientDetails_grpc no_faults rename_request example_db)))
        = [Some ''pain relief'']
   \<and> \<not> updated_as_specified rename_request rx1 example_db
        (db_after (UpdatePatientDetails_grpc no_faults rename_request example_db))"
  by (simp add: handler_defs example_defs statement_defs updated_as_specified_def
      field_as_specified_def)

section \<open>Referential integrity\<close>

lemma db_after_query_handler [simp]: "db_after (query_handler F db recordset respond) = db"
  by (simp add: query_handler_def)

lemma db_after_GetAllPatients [simp]: "db_after (GetAllPatients F req db) = db"
  by (simp add: GetAllPatients_def Let_def)

lemma integrity_from_ids:
  assumes "referential_integrity db"
    and "prescription_reference db' = prescription_reference db"
    and "map p_id (patient db') = map p_id (patient db)"
    and "map d_id (doctor db') = map d_id (doctor db)"
    and "map m_id (medicine db') = map m_id (medicine db)"
  shows "referential_integrity db'"
  using assms by (simp add: referential_integrity_def)

lemma integrity_UpdatePatientDetails:
  assumes "referential_integrity db"
  shows "referential_integrity (db_after (UpdatePatientDetails F req db))"
  using all_or_nothing [of F req db] assms
  by (auto intro: integrity_from_ids simp: tables_apply_updates ids_apply_updates)

text \<open>
  C5. Referential integrity is preserved by every operation of the service, whatever
  raises, and hence by every sequence of operations. The four reading handlers leave
  the database as it is.
\<close>

theorem operations_preserve_integrity:
  assumes "referential_integrity db"
  shows "referential_integrity (state_after like F op db)
       \<and> referential_integrity (states_after like ops db)
       \<and> state_after like F (OpGetPatient n) db = db
       \<and> state_after like F (OpGetAllPatients pg) db = db
       \<and> state_after like F (OpGetPrescription ref) db = db
       \<and> state_after like F (OpGetReference ref) db = db"
proof -
  have step: "referential_integrity (state_after like F' op' db')"
    if "referential_integrity db'" for F' op' db'
    using that
    by (cases op')
      (simp_all add: GetPatient_def GetPrescription_def GetReference_def
        integrity_UpdatePatientDetails UpdatePatientDetails_grpc_eq)
  have "referential_integrity (states_after like ops db')"
    if "referential_integrity db'" for db'
    using that by (induction ops arbitrary: db') (auto simp: step)
  with assms step show ?thesis
    by (simp add: GetPatient_def GetPrescription_def GetReference_def)
qed

theorem operations_preserve_integrity_witness:
  "referential_integrity example_db
   \<and> referential_integrity
       (state_after like_wildcards doctor_update_fails (OpUpdatePatientDetails rename_request)
          example_db)
   \<and> referential_integrity
       (states_after like_wildcards
          [(no_faults, OpUpdatePatientDetails rename_request),
           (no_faults, OpGetReference ''RX''),
           (doctor_update_fails, OpUpdatePatientDetails_grpc falsy_request)]
          example_db)"
  using integrity_example_db
    operations_preserve_integrity [OF integrity_example_db,
      where like = like_wildcards and F = doctor_update_fails
        and op = "OpUpdatePatientDetails rename_request"
        and ops = "[(no_faults, OpUpdatePatientDetails rename_request),
           (no_faults, OpGetReference ''RX''),
           (doctor_update_fails, OpUpdatePatientDetails_grpc falsy_request)]"]
  by blast

section \<open>Statuses of the reading handlers\<close>

lemma query_handler_outcome:
  "reply (query_handler F db rs respond) = Inl NOT_FOUND
     \<longleftrightarrow> \<not> F Connect \<and> \<not> F Query \<and> rs = []"
  "reply (query_handler F db rs respond) = Inl INTERNAL \<longleftrightarrow> F Connect \<or> F Query"
  "reply (query_handler F db rs respond) = Inr resp
     \<longleftrightarrow> \<not> F Connect \<and> \<not> F Query \<and> rs \<noteq> [] \<and> resp = respond rs"
  "trace (query_handler F db rs respond) = (if F Connect then [Connect] else [Connect, Query])"
  by (auto simp: query_handler_def)

lemma set_join_tables:
  "set (join_tables db) =
     {\<lparr>j_reference_number = pr_reference_number pr,
       j_name = p_name p, j_age = p_age p, j_gender = p_gender p,
       j_contact = p_contact p, j_doctor_name = d_name d,
       j_medicine_name = m_name m, j_description = m_description m\<rparr> | pr p d m.
      pr \<in> set (prescription_reference db) \<and> p \<in> set (patient db) \<and> d \<in> set (doctor db)
      \<and> m \<in> set (medicine db) \<and> p_id p = pr_patient_id pr \<and> d_id d = pr_doctor_id pr
      \<and> m_id m = pr_medicine_id pr}"
  unfolding join_tables_def
  apply (simp add: set_eq_iff)
  apply (intro allI iffI)
   apply (auto split: if_splits)[1]
  apply (elim exE conjE)
  subgoal for x pr p d m
    by (rule bexI [of _ pr], rule bexI [of _ p], rule bexI [of _ d], rule bexI [of _ m])
      simp_all
  done

lemma join_row_exists:
  "(\<exists>row \<in> set (join_tables db). j_reference_number row = ref)
   \<longleftrightarrow> (\<exists>pr \<in> set (prescription_reference db). pr_reference_number pr = ref
          \<and> pr_patient_id pr \<in> p_id ` set (patient db)
          \<and> pr_doctor_id pr \<in> d_id ` set (doctor db)
          \<and> pr_medicine_id pr \<in> m_id ` set (medicine db))"
  (is "?lhs \<longleftrightarrow> ?rhs")
proof
  assume ?lhs
  then obtain pr p d m where "pr \<in> set (prescription_reference db)"
    "p \<in> set (patient db)" "d \<in> set (doctor db)" "m \<in> set (medicine db)"
    "p_id p = pr_patient_id pr" "d_id d = pr_doctor_id pr" "m_id m = pr_medicine_id pr"
    "pr_reference_number pr = ref"
    unfolding set_join_tables by auto
  then show ?rhs by (metis imageI)
next
  assume ?rhs
  then obtain pr p d m where h: "pr \<in> set (prescription_reference db)"
    "p \<in> set (patient db)" "d \<in> set (doctor db)" "m \<in> set (medicine db)"
    "p_id p = pr_patient_id pr" "d_id d = pr_doctor_id pr" "m_id m = pr_medicine_id pr"
    "pr_reference_number pr = ref"
    by auto
  let ?row = "\<lparr>j_reference_number = pr_reference_number pr,
       j_name = p_name p, j_age = p_age p, j_gender = p_gender p,
       j_contact = p_contact p, j_doctor_name = d_name d,
       j_medicine_name = m_name m, j_description = m_description m\<rparr>"
  have "?row \<in> set (join_tables db)"
    unfolding set_join_tables using h(1-7) by blast
  moreover have "j_reference_number ?row = ref" using h(8) by simp
  ultimately show ?lhs by blast
qed

lemma count_list_one_mem: "count_list xs x = 1 \<Longrightarrow> x \<in> set xs"
  using count_list_0_iff [of xs x] by force

lemma join_row_exists_integrity:
  assumes "referential_integrity db"
  shows "(\<exists>row \<in> set (join_tables db). j_reference_number row = ref)
   \<longleftrightarrow> (\<exists>pr \<in> set (prescription_reference db). pr_reference_number pr = ref)"
proof -
  have "pr_patient_id pr \<in> p_id ` set (patient db)
      \<and> pr_doctor_id pr \<in> d_id ` set (doctor db)
      \<and> pr_medicine_id pr \<in> m_id ` set (medicine db)"
    if "pr \<in> set (prescription_reference db)" for pr
    using assms that count_list_one_mem [of "map p_id (patient db)" "pr_patient_id pr"]
      count_list_one_mem [of "map d_id (doctor db)" "pr_doctor_id pr"]
      count_list_one_mem [of "map m_id (medicine db)" "pr_medicine_id pr"]
    by (simp add: referential_integrity_def list_all_iff)
  then show ?thesis unfolding join_row_exists by blast
qed

text \<open>
  C6. Each of GetPatient, GetPrescription and GetReference answers NOT_FOUND exactly
  when the connection and the query succeed and no row matches (the name; the
  reference number, in the join, which under referential integrity is to say in the
  reference table; the pattern), and INTERNAL exactly when the connection or the query
  raises. These are the only statuses. Each step is issued once: the call stops at the
  step that raised.
\<close>

theorem read_handlers_status:
  "(reply (GetPatient F n db) = Inl NOT_FOUND
      \<longleftrightarrow> \<not> F Connect \<and> \<not> F Query \<and> (\<forall>p \<in> set (patient db). p_name p \<noteq> Some n))
   \<and> (reply (GetPrescription F ref db) = Inl NOT_FOUND
      \<longleftrightarrow> \<not> F Connect \<and> \<not> F Query
          \<and> (\<forall>row \<in> set (join_tables db). j_reference_number row \<noteq> ref))
   \<and> (referential_integrity db \<longrightarrow>
        (reply (GetPrescription F ref db) = Inl NOT_FOUND
          \<longleftrightarrow> \<not> F Connect \<and> \<not> F Query
              \<and> (\<forall>pr \<in> set (prescription_reference db). pr_reference_number pr \<noteq> ref)))
   \<and> (reply (GetReference like F ref db) = Inl NOT_FOUND
      \<longleftrightarrow> \<not> F Connect \<and> \<not> F Query
          \<and> (\<forall>pr \<in> set (prescription_reference db).
                \<not> like (''%'' @ ref @ ''%'') (pr_reference_number pr)))
   \<and> (reply (GetPatient F n db) = Inl INTERNAL \<longleftrightarrow> F Connect \<or> F Query)
   \<and> (reply (GetPrescription F ref db) = Inl INTERNAL \<longleftrightarrow> F Connect \<or> F Query)
   \<and> (reply (GetReference like F ref db) = Inl INTERNAL \<longleftrightarrow> F Connect \<or> F Query)
   \<and> (\<forall>st. reply (GetPatient F n db) = Inl st \<longrightarrow> st = NOT_FOUND \<or> st = INTERNAL)
   \<and> (\<forall>st. reply (GetPrescription F ref db) = Inl st \<longrightarrow> st = NOT_FOUND \<or> st = INTERNAL)
   \<and> (\<forall>st. reply (GetReference like F ref db) = Inl st \<longrightarrow> st = NOT_FOUND \<or> st = INTERNAL)
   \<and> trace (GetPatient F n db) = (if F Connect then [Connect] else [Connect, Query])
   \<and> trace (GetPrescription F ref db) = (if F Connect then [Connect] else [Connect, Query])
   \<and> trace (GetReference like F ref db)
       = (if F Connect then [Connect] else [Connect, Query])"
proof -
  have st: "st = NOT_FOUND \<or> st = INTERNAL" for st by (cases st) simp_all
  have j: "prescription_rows ref db = []
      \<longleftrightarrow> (\<forall>row \<in> set (join_tables db). j_reference_number row \<noteq> ref)"
    by (simp add: prescription_rows_def filter_empty_conv)
  have i: "prescription_rows ref db = []
      \<longleftrightarrow> (\<forall>pr \<in> set (prescription_reference db). pr_reference_number pr \<noteq> ref)"
    if "referential_integrity db"
    using join_row_exists_integrity [OF that, of ref] unfolding j by blast
  have p: "patient_rows n db = [] \<longleftrightarrow> (\<forall>p \<in> set (patient db). p_name p \<noteq> Some n)"
    by (simp add: patient_rows_def filter_empty_conv)
  have r: "reference_rows like ref db = []
      \<longleftrightarrow> (\<forall>pr \<in> set (prescription_reference db).
                \<not> like (''%'' @ ref @ ''%'') (pr_reference_number pr))"
    by (simp add: reference_rows_def filter_empty_conv)
  show ?thesis
    unfolding GetPatient_def GetPrescription_def GetReference_def query_handler_outcome
    using st i j p r by simp
qed

theorem read_handlers_status_witness:
  "referential_integrity example_db
   \<and> reply (GetPatient no_faults ''Zoe'' example_db) = Inl NOT_FOUND
   \<and> reply (GetPrescription no_faults ''RX-3'' example_db) = Inl NOT_FOUND
   \<and> reply (GetReference like_wildcards no_faults ''RY'' example_db) = Inl NOT_FOUND
   \<and> reply (GetReference like_wildcards (\<lambda>s. s = Query) ''RX'' example_db) = Inl INTERNAL
   \<and> trace (GetReference like_wildcards (\<lambda>s. s = Connect) ''RX'' example_db) = [Connect]"
proof -
  have "\<forall>p \<in> set (patient example_db). p_name p \<noteq> Some ''Zoe''"
    and "\<forall>pr \<in> set (prescription_reference example_db). pr_reference_number pr \<noteq> ''RX-3''"
    and "\<forall>pr \<in> set (prescription_reference example_db).
                \<not> like_wildcards (''%'' @ ''RY'' @ ''%'') (pr_reference_number pr)"
    by (simp_all add: example_db_def)
  then show ?thesis
    using integrity_example_db
      read_handlers_status [of no_faults "''Zoe''" example_db "''RX-3''" like_wildcards]
      read_handlers_status [of no_faults "''Zoe''" example_db "''RY''" like_wildcards]
      read_handlers_status [of "\<lambda>s. s = Query" "''Zoe''" example_db "''RX''" like_wildcards]
      read_handlers_status [of "\<lambda>s. s = Connect" "''Zoe''" example_db "''RX''" like_wildcards]
    by (simp add: no_faults_def)
qed

section \<open>The resolvers\<close>

text \<open>
  C7. Each resolver adds exactly one remote call to the calls made, the call of its
  own method with the request's arguments. It resolves with the response of that call
  (with its patient list, or the empty list when the response has none, for
  getAllPatients; with its success flag for updatePatientDetails) and rejects with its
  error. The settled value depends on nothing but what the remote call gives: not on
  the calls made before, and two remote services that answer this call alike give the
  same value.
\<close>

theorem resolvers_forward_one_call:
  "(snd (getPatient rp nm calls) = calls @ [GetPatient_rpc nm]
    \<and> (\<forall>resp. rp nm = Inr resp \<longrightarrow> fst (getPatient rp nm calls) = Resolved resp)
    \<and> (\<forall>err. rp nm = Inl err \<longrightarrow> fst (getPatient rp nm calls) = Rejected err)
    \<and> (rp nm = rp' nm \<longrightarrow> fst (getPatient rp nm calls) = fst (getPatient rp' nm calls')))
   \<and> (snd (getAllPatients ra pg calls) = calls @ [GetAllPatients_rpc pg]
    \<and> (\<forall>ps. ra pg = Inr (Some ps) \<longrightarrow> fst (getAllPatients ra pg calls) = Resolved ps)
    \<and> (ra pg = Inr None \<longrightarrow> fst (getAllPatients ra pg calls) = Resolved [])
    \<and> (\<forall>err. ra pg = Inl err \<longrightarrow> fst (getAllPatients ra pg calls) = Rejected err)
    \<and> (ra pg = ra' pg \<longrightarrow>
         fst (getAllPatients ra pg calls) = fst (getAllPatients ra' pg calls')))
   \<and> (snd (getPrescription rx ref calls) = calls @ [GetPrescription_rpc ref]
    \<and> (\<forall>resp. rx ref = Inr resp \<longrightarrow> fst (getPrescription rx ref calls) = Resolved resp)
    \<and> (\<forall>err. rx ref = Inl err \<longrightarrow> fst (getPrescription rx ref calls) = Rejected err)
    \<and> (rx ref = rx' ref \<longrightarrow>
         fst (getPrescription rx ref calls) = fst (getPrescription rx' ref calls')))
   \<and> (snd (getReference rr ref calls) = calls @ [GetReference_rpc ref]
    \<and> (\<forall>resp. rr ref = Inr resp \<longrightarrow> fst (getReference rr ref calls) = Resolved resp)
    \<and> (\<forall>err. rr ref = Inl err \<longrightarrow> fst (getReference rr ref calls) = Rejected err)
    \<and> (rr ref = rr' ref \<longrightarrow>
         fst (getReference rr ref calls) = fst (getReference rr' ref calls')))
   \<and> (snd (updatePatientDetails ru args calls) = calls @ [UpdatePatientDetails_rpc args]
    \<and> (\<forall>resp. ru args = Inr resp \<longrightarrow>
         fst (updatePatientDetails ru args calls) = Resolved (success resp))
    \<and> (\<forall>err. ru args = Inl err \<longrightarrow> fst (updatePatientDetails ru args calls) = Rejected err)
    \<and> (ru args = ru' args \<longrightarrow>
         fst (updatePatientDetails ru args calls)
           = fst (updatePatientDetails ru' args calls')))"
  by (simp add: getPatient_def getAllPatients_def getPrescription_def getReference_def
      updatePatientDetails_def)

theorem resolvers_forward_one_call_witness:
  "getPatient (\<lambda>n. reply (GetPatient no_faults n example_db)) ''Bob'' []
     = (Resolved \<lparr>pt_name = Some ''Bob'', pt_age = Some 41, pt_gender = Some ''M'',
                  pt_contact = None\<rparr>,
        [GetPatient_rpc ''Bob''])
   \<and> getPatient (\<lambda>n. reply (GetPatient no_faults n example_db)) ''Zoe'' [GetPatient_rpc ''Bob'']
     = (Rejected NOT_FOUND, [GetPatient_rpc ''Bob'', GetPatient_rpc ''Zoe''])
   \<and> updatePatientDetails (\<lambda>req. reply (UpdatePatientDetails no_faults req example_db))
        rename_request []
     = (Resolved True, [UpdatePatientDetails_rpc rename_request])"
proof -
  let ?rp = "\<lambda>n. reply (GetPatient no_faults n example_db)"
  let ?ru = "\<lambda>req. reply (UpdatePatientDetails no_faults req example_db)"
  have a: "?rp ''Bob''
      = Inr \<lparr>pt_name = Some ''Bob'', pt_age = Some 41, pt_gender = Some ''M'',
              pt_contact = None\<rparr>"
    and b: "?rp ''Zoe'' = Inl NOT_FOUND"
    by (simp_all add: GetPatient_def query_handler_def patient_rows_def example_defs)
  have c: "?ru rename_request = Inr \<lparr>success = True\<rparr>"
    by (simp add: handler_defs example_defs)
  have "snd (getPatient ?rp ''Bob'' []) = [] @ [GetPatient_rpc ''Bob'']"
    and "fst (getPatient ?rp ''Bob'' [])
      = Resolved \<lparr>pt_name = Some ''Bob'', pt_age = Some 41, pt_gender = Some ''M'',
              pt_contact = None\<rparr>"
    using resolvers_forward_one_call
      [where rp = ?rp and nm = "''Bob''" and calls = "[]", THEN conjunct1] a
    by blast+
  moreover
  have "snd (getPatient ?rp ''Zoe'' [GetPatient_rpc ''Bob''])
      = [GetPatient_rpc ''Bob''] @ [GetPatient_rpc ''Zoe'']"
    and "fst (getPatient ?rp ''Zoe'' [GetPatient_rpc ''Bob'']) = Rejected NOT_FOUND"
    using resolvers_forward_one_call
      [where rp = ?rp and nm = "''Zoe''" and calls = "[GetPatient_rpc ''Bob'']",
        THEN conjunct1] b
    by blast+
  moreover
  have "snd (updatePatientDetails ?ru rename_request [])
      = [] @ [UpdatePatientDetails_rpc rename_request]"
    and "fst (updatePatientDetails ?ru rename_request [])
      = Resolved (success \<lparr>success = True\<rparr>)"
    using resolvers_forward_one_call
      [where ru = ?ru and args = rename_request and calls = "[]",
        THEN conjunct2, THEN conjunct2, THEN conjunct2, THEN conjunct2] c
    by blast+
  ultimately show ?thesis
    by (simp add: prod_eq_iff)
qed

section \<open>Pagination\<close>

lemma total_pages_div: "total_pages cnt sz = - ((- cnt) div sz)"
  by (simp add: total_pages_def ceiling_divide_eq_div)

lemma total_pages_bounds:
  assumes "0 < sz"
  shows "(total_pages cnt sz - 1) * sz < cnt" and "cnt \<le> total_pages cnt sz * sz"
proof -
  let ?x = "real_of_int cnt / real_of_int sz"
  have s: "0 < real_of_int sz" using assms by simp
  have "real_of_int (total_pages cnt sz) - 1 < ?x" and "?x \<le> real_of_int (total_pages cnt sz)"
    using ceiling_correct [of ?x] by (simp_all add: total_pages_def)
  then have "(real_of_int (total_pages cnt sz) - 1) * real_of_int sz < real_of_int cnt"
    and "real_of_int cnt \<le> real_of_int (total_pages cnt sz) * real_of_int sz"
    using s by (simp_all add: pos_less_divide_eq pos_divide_le_eq)
  then have "real_of_int ((total_pages cnt sz - 1) * sz) < real_of_int cnt"
    and "real_of_int cnt \<le> real_of_int (total_pages cnt sz * sz)"
    by simp_all
  then show "(total_pages cnt sz - 1) * sz < cnt" and "cnt \<le> total_pages cnt sz * sz"
    by (simp_all only: of_int_less_iff of_int_le_iff)
qed

lemma or_default_missing: "or_default None dflt = dflt" "or_default (Some 0) dflt = dflt"
  "n \<noteq> 0 \<Longrightarrow> or_default (Some n) dflt = n"
  by (simp_all add: or_default_def)

lemma ordered_join_sorted:
  "sorted (map j_reference_number (ordered_join db))"
  "mset (ordered_join db) = mset (join_tables db)"
  by (simp_all add: ordered_join_def)

lemma GetAllPatients_Inr:
  assumes "reply (GetAllPatients F req db) = Inr resp"
  defines "pg \<equiv> or_default (page req) 1" and "sz \<equiv> or_default (pageSize req) 10"
  shows "\<not> F Connect" "\<not> F CountQuery" "\<not> F PageQuery" "\<not> page_query_rejected ((pg - 1) * sz) sz"
    and "resp = \<lparr>patients =
                       map (\<lambda>row. \<lparr>details = row,
                                    totalCount = int (length (prescription_reference db)),
                                    totalPages = total_pages (int (length (prescription_reference db))) sz\<rparr>)
                         (page_rows ((pg - 1) * sz) sz db),
                     response_totalPages = total_pages (int (length (prescription_reference db))) sz\<rparr>"
  using assms(1) unfolding pg_def sz_def
  by (simp_all add: GetAllPatients_def Let_def split: if_splits)

lemma GetAllPatients_returns:
  assumes "\<not> F Connect" "\<not> F CountQuery" "\<not> F PageQuery"
    and "\<not> page_query_rejected ((or_default (page req) 1 - 1) * or_default (pageSize req) 10)
           (or_default (pageSize req) 10)"
  shows "\<exists>resp. reply (GetAllPatients F req db) = Inr resp"
  using assms by (simp add: GetAllPatients_def Let_def)

lemma or_default_requested:
  "or_default (page req) 1 = requested_page (zero_as_missing req)"
  "or_default (pageSize req) 10 = requested_pageSize (zero_as_missing req)"
  by (simp_all add: or_default_def requested_page_def requested_pageSize_def
      zero_as_missing_def split: option.splits)

lemma or_default_zero_as_missing:
  "or_default (page (zero_as_missing req)) d = or_default (page req) d"
  "or_default (pageSize (zero_as_missing req)) d = or_default (pageSize req) d"
  by (simp_all add: or_default_def zero_as_missing_def split: option.splits)

lemma GetAllPatients_zero_as_missing:
  "GetAllPatients F (zero_as_missing req) db = GetAllPatients F req db"
  by (simp add: GetAllPatients_def or_default_zero_as_missing)

lemma requested_supplied:
  assumes "page req = Some p" "p \<noteq> 0" "pageSize req = Some s" "s \<noteq> 0"
  shows "requested_page (zero_as_missing req) = p"
    and "requested_pageSize (zero_as_missing req) = s"
  using assms by (simp_all add: requested_page_def requested_pageSize_def zero_as_missing_def)

lemma GetAllPatients_as_specified:
  assumes "reply (GetAllPatients F req db) = Inr resp"
  shows "page_as_specified (zero_as_missing req) db resp"
    and "list_all
          (\<lambda>row. (totalPages row - 1) * requested_pageSize (zero_as_missing req)
                   < totalCount row
                \<and> totalCount row
                   \<le> totalPages row * requested_pageSize (zero_as_missing req))
          (patients resp)"
proof -
  let ?pg = "requested_page (zero_as_missing req)"
  let ?sz = "requested_pageSize (zero_as_missing req)"
  note h = GetAllPatients_Inr [OF assms, unfolded or_default_requested]
  from h(4) have sz: "1 \<le> ?sz" and off: "0 \<le> (?pg - 1) * ?sz"
    by (simp_all add: page_query_rejected_def)
  have len: "int (length (patients resp)) \<le> ?sz"
    using sz by (simp add: h(5) page_rows_def)
  have rows: "map details (patients resp)
      = take (nat ?sz) (drop (nat ((?pg - 1) * ?sz)) (ordered_join db))"
    by (simp add: h(5) page_rows_def o_def)
  have counts: "list_all
          (\<lambda>row. totalCount row = int (length (prescription_reference db))
                \<and> totalPages row = \<lceil>real_of_int (totalCount row) / real_of_int ?sz\<rceil>)
          (patients resp)"
    by (simp add: h(5) list_all_iff total_pages_def)
  show "page_as_specified (zero_as_missing req) db resp"
    unfolding page_as_specified_def using off rows len counts by blast
  show "list_all
          (\<lambda>row. (totalPages row - 1) * ?sz < totalCount row
                \<and> totalCount row \<le> totalPages row * ?sz)
          (patients resp)"
    using total_pages_bounds [of ?sz "int (length (prescription_reference db))"] sz
    by (simp add: h(5) list_all_iff)
qed

text \<open>
  C8, as amended. A missing page and a page of 0 are read as 1, a missing pageSize and
  a pageSize of 0 as 10; any other supplied value is taken as it is. When the call
  returns a list, the list holds the rows of the join ordered by reference number at
  offset (page - 1) * pageSize, at most pageSize of them, for the page and pageSize so
  read, and every row carries the number of reference rows as totalCount and the
  ceiling of totalCount / pageSize as totalPages, the least number of pages that hold
  totalCount rows. The call does return a list when no step raises and page and
  pageSize, so read, are at least 1 and keep offset and pageSize within 32 bits.
\<close>

theorem paged_patients:
  "GetAllPatients F req db = GetAllPatients F (zero_as_missing req) db
   \<and> GetAllPatients F (req\<lparr>page := None\<rparr>) db = GetAllPatients F (req\<lparr>page := Some 1\<rparr>) db
   \<and> GetAllPatients F (req\<lparr>pageSize := None\<rparr>) db
       = GetAllPatients F (req\<lparr>pageSize := Some 10\<rparr>) db
   \<and> (\<forall>resp. reply (GetAllPatients F req db) = Inr resp \<longrightarrow>
         page_as_specified (zero_as_missing req) db resp
         \<and> list_all
             (\<lambda>row. (totalPages row - 1) * requested_pageSize (zero_as_missing req)
                      < totalCount row
                   \<and> totalCount row
                      \<le> totalPages row * requested_pageSize (zero_as_missing req))
             (patients resp))
   \<and> (\<forall>resp p s. reply (GetAllPatients F req db) = Inr resp
         \<and> page req = Some p \<and> p \<noteq> 0 \<and> pageSize req = Some s \<and> s \<noteq> 0 \<longrightarrow>
         map details (patients resp) = take (nat s) (drop (nat ((p - 1) * s)) (ordered_join db))
         \<and> int (length (patients resp)) \<le> s
         \<and> 0 \<le> (p - 1) * s
         \<and> list_all
             (\<lambda>row. totalCount row = int (length (prescription_reference db))
                   \<and> totalPages row = \<lceil>real_of_int (totalCount row) / real_of_int s\<rceil>)
             (patients resp))
   \<and> sorted (map j_reference_number (ordered_join db))
   \<and> mset (ordered_join db) = mset (join_tables db)
   \<and> (\<not> F Connect \<and> \<not> F CountQuery \<and> \<not> F PageQuery
       \<and> 1 \<le> requested_page (zero_as_missing req)
       \<and> 1 \<le> requested_pageSize (zero_as_missing req)
       \<and> int32 ((requested_page (zero_as_missing req) - 1)
                 * requested_pageSize (zero_as_missing req))
       \<and> int32 (requested_pageSize (zero_as_missing req)) \<longrightarrow>
         (\<exists>resp. reply (GetAllPatients F req db) = Inr resp))"
proof (intro conjI allI impI)
  show "GetAllPatients F req db = GetAllPatients F (zero_as_missing req) db"
    by (simp add: GetAllPatients_zero_as_missing)
  show "GetAllPatients F (req\<lparr>page := None\<rparr>) db = GetAllPatients F (req\<lparr>page := Some 1\<rparr>) db"
    and "GetAllPatients F (req\<lparr>pageSize := None\<rparr>) db
        = GetAllPatients F (req\<lparr>pageSize := Some 10\<rparr>) db"
    by (simp_all add: GetAllPatients_def or_default_def)
  show "sorted (map j_reference_number (ordered_join db))"
    and "mset (ordered_join db) = mset (join_tables db)"
    by (rule ordered_join_sorted)+
next
  fix resp assume "reply (GetAllPatients F req db) = Inr resp"
  from GetAllPatients_as_specified [OF this]
  show "page_as_specified (zero_as_missing req) db resp"
    and "list_all
             (\<lambda>row. (totalPages row - 1) * requested_pageSize (zero_as_missing req)
                      < totalCount row
                   \<and> totalCount row
                      \<le> totalPages row * requested_pageSize (zero_as_missing req))
             (patients resp)"
    by blast+
next
  fix resp p s
  assume a: "reply (GetAllPatients F req db) = Inr resp
         \<and> page req = Some p \<and> p \<noteq> 0 \<and> pageSize req = Some s \<and> s \<noteq> 0"
  then have q: "requested_page (zero_as_missing req) = p"
    "requested_pageSize (zero_as_missing req) = s"
    by (simp_all add: requested_supplied)
  from a GetAllPatients_as_specified(1) [of F req db resp]
  have "page_as_specified (zero_as_missing req) db resp" by blast
  then show "map details (patients resp)
        = take (nat s) (drop (nat ((p - 1) * s)) (ordered_join db))"
    and "int (length (patients resp)) \<le> s" and "0 \<le> (p - 1) * s"
    and "list_all
             (\<lambda>row. totalCount row = int (length (prescription_reference db))
                   \<and> totalPages row = \<lceil>real_of_int (totalCount row) / real_of_int s\<rceil>)
             (patients resp)"
    unfolding page_as_specified_def q by blast+
next
  let ?pg = "requested_page (zero_as_missing req)"
  let ?sz = "requested_pageSize (zero_as_missing req)"
  assume a: "\<not> F Connect \<and> \<not> F CountQuery \<and> \<not> F PageQuery
       \<and> 1 \<le> ?pg \<and> 1 \<le> ?sz \<and> int32 ((?pg - 1) * ?sz) \<and> int32 ?sz"
  then have "0 \<le> ?pg - 1" and "0 \<le> ?sz" by simp_all
  then have "0 \<le> (?pg - 1) * ?sz" by (rule mult_nonneg_nonneg)
  then have "\<not> (?pg - 1) * ?sz < 0" by (simp only: not_less)
  with a have "\<not> page_query_rejected ((?pg - 1) * ?sz) ?sz"
    by (simp add: page_query_rejected_def)
  with a show "\<exists>resp. reply (GetAllPatients F req db) = Inr resp"
    by (intro GetAllPatients_returns) (simp_all add: or_default_requested)
qed

lemma ordered_join_example:
  "ordered_join example_db =
   [\<lparr>j_reference_number = ''RX-1'', j_name = Some ''Ann'', j_age = Some 30,
      j_gender = Some ''F'', j_contact = Some ''555-0101'', j_doctor_name = Some ''Dr Grey'',
      j_medicine_name = Some ''Aspirin'', j_description = Some ''pain relief''\<rparr>,
    \<lparr>j_reference_number = ''RX-2'', j_name = Some ''Bob'', j_age = Some 41,
      j_gender = Some ''M'', j_contact = None, j_doctor_name = Some ''Dr Grey'',
      j_medicine_name = Some ''Aspirin'', j_description = Some ''pain relief''\<rparr>]"
  by (simp add: ordered_join_def join_tables_def example_db_def less_eq_list_code)

lemmas page_defs = GetAllPatients_def or_default_def page_query_rejected_def int32_def
  page_rows_def total_pages_div no_faults_def ordered_join_example

theorem paged_patients_witness:
  "page second_page_request = Some 2 \<and> pageSize second_page_request = Some 1
   \<and> (\<exists>resp. reply (GetAllPatients no_faults second_page_request example_db) = Inr resp
      \<and> page_as_specified second_page_request example_db resp
      \<and> map (j_reference_number \<circ> details) (patients resp) = [''RX-2'']
      \<and> map totalCount (patients resp) = [2]
      \<and> map totalPages (patients resp) = [2])
   \<and> reply (GetAllPatients no_faults zero_size_request example_db)
      = reply (GetAllPatients no_faults \<lparr>page = Some 1, pageSize = None\<rparr> example_db)"
proof -
  let ?req = second_page_request
  note t = paged_patients [of no_faults ?req example_db]
  have z: "zero_as_missing ?req = ?req"
    and v: "page ?req = Some 2" "pageSize ?req = Some 1"
    "requested_page ?req = 2" "requested_pageSize ?req = 1"
    by (simp_all add: zero_as_missing_def second_page_request_def requested_page_def
        requested_pageSize_def)
  have pre: "\<not> no_faults Connect \<and> \<not> no_faults CountQuery \<and> \<not> no_faults PageQuery
       \<and> 1 \<le> requested_page (zero_as_missing ?req)
       \<and> 1 \<le> requested_pageSize (zero_as_missing ?req)
       \<and> int32 ((requested_page (zero_as_missing ?req) - 1)
                 * requested_pageSize (zero_as_missing ?req))
       \<and> int32 (requested_pageSize (zero_as_missing ?req))"
    unfolding z v by (simp add: no_faults_def int32_def)
  with t obtain resp where r: "reply (GetAllPatients no_faults ?req example_db) = Inr resp"
    by blast
  with t have s: "page_as_specified ?req example_db resp" unfolding z by blast
  then have d: "map details (patients resp) = [ordered_join example_db ! 1]"
    and c: "list_all
          (\<lambda>row. totalCount row = int (length (prescription_reference example_db))
                \<and> totalPages row = \<lceil>real_of_int (totalCount row) / real_of_int 1\<rceil>)
          (patients resp)"
    unfolding page_as_specified_def v by (simp_all add: ordered_join_example)
  from d obtain row where p: "patients resp = [row]" by auto
  with c have "totalCount row = 2" and "totalPages row = 2"
    by (simp_all add: example_db_def)
  with p d have "map (j_reference_number \<circ> details) (patients resp) = [''RX-2'']
      \<and> map totalCount (patients resp) = [2] \<and> map totalPages (patients resp) = [2]"
    by (simp add: ordered_join_example)
  moreover
  have "zero_as_missing zero_size_request
      = zero_as_missing \<lparr>page = Some 1, pageSize = None\<rparr>"
    by (simp add: zero_as_missing_def zero_size_request_def)
  with paged_patients [of no_faults zero_size_request example_db]
    paged_patients [of no_faults "\<lparr>page = Some 1, pageSize = None\<rparr>" example_db]
  have "reply (GetAllPatients no_faults zero_size_request example_db)
      = reply (GetAllPatients no_faults \<lparr>page = Some 1, pageSize = None\<rparr> example_db)"
    by simp
  ultimately show ?thesis using r s v by auto
qed

text \<open>
  C8 as stated fails. With a supplied pageSize of 0 the call returns two rows, more
  than pageSize, with totalPages 1; with a supplied page of 0 and pageSize 1 it returns
  the row at offset 0, where (page - 1) * pageSize is -1.
\<close>

theorem zero_page_not_honoured:
  "pageSize zero_size_request = Some 0
   \<and> \<not> isl (reply (GetAllPatients no_faults zero_size_request example_db))
   \<and> map (j_reference_number \<circ> details)
        (patients (projr (reply (GetAllPatients no_faults zero_size_request example_db))))
       = [''RX-1'', ''RX-2'']
   \<and> map totalPages
        (patients (projr (reply (GetAllPatients no_faults zero_size_request example_db))))
       = [1, 1]
   \<and> \<not> page_as_specified zero_size_request example_db
        (projr (reply (GetAllPatients no_faults zero_size_request example_db)))
   \<and> page zero_page_request = Some 0
   \<and> \<not> isl (reply (GetAllPatients no_faults zero_page_request example_db))
   \<and> map (j_reference_number \<circ> details)
        (patients (projr (reply (GetAllPatients no_faults zero_page_request example_db))))
       = [''RX-1'']
   \<and> (requested_page zero_page_request - 1) * requested_pageSize zero_page_request = - 1
   \<and> \<not> page_as_specified zero_page_request example_db
        (projr (reply (GetAllPatients no_faults zero_page_request example_db)))"
proof -
  have n: "length (prescription_reference example_db) = 2"
    by (simp add: example_db_def)
  show ?thesis
    by (simp add: page_defs n zero_size_request_def zero_page_request_def
        page_as_specified_def requested_page_def requested_pageSize_def)
qed

end
